theory Spec2Isabelle
  imports Complex_Main "HOL-Library.Sublist" "HOL-Library.Char_ord" "HOL-Library.List_Lexorder"
begin

section \<open>JavaScript primitives used by prune-state-vscdb.ts\<close>

text \<open>
  Strings are byte lists. JavaScript numbers that hold counts and retention values are
  modelled as unbounded integers (exact for magnitudes below \<open>2^53\<close>); \<open>NaN\<close> is
  \<open>None\<close>. White space is the ASCII part of what \<open>String.prototype.trim\<close> and
  \<open>parseInt\<close> skip.
\<close>

definition quote :: char where
  "quote = CHR 0x27"

definition isWhite :: "char \<Rightarrow> bool" where
  "isWhite c = (c \<in> set [CHR 0x20, CHR 0x09, CHR 0x0A, CHR 0x0B, CHR 0x0C, CHR 0x0D])"

definition isDigit :: "char \<Rightarrow> bool" where
  "isDigit c = (48 \<le> (of_char c :: nat) \<and> (of_char c :: nat) \<le> 57)"

definition digitVal :: "char \<Rightarrow> nat" where
  "digitVal c = of_char c - 48"

definition digitChar :: "nat \<Rightarrow> char" where
  "digitChar d = char_of (48 + d)"

definition digitsVal :: "string \<Rightarrow> nat" where
  "digitsVal ds = foldl (\<lambda>a c. 10 * a + digitVal c) 0 ds"

text \<open>\<open>s.trim()\<close>.\<close>

definition trim :: "string \<Rightarrow> string" where
  "trim s = rev (dropWhile isWhite (rev (dropWhile isWhite s)))"

text \<open>
  \<open>parseInt(s, 10)\<close>: skip leading white space, read an optional sign, then the
  longest run of decimal digits; no digit gives \<open>NaN\<close>. Whatever follows the digits is
  ignored.
\<close>

definition parseInt :: "string \<Rightarrow> int option" where
  "parseInt s =
     (let t = dropWhile isWhite s;
          neg = (t \<noteq> [] \<and> hd t = CHR ''-'');
          u = (if t \<noteq> [] \<and> (hd t = CHR ''-'' \<or> hd t = CHR ''+'') then tl t else t);
          ds = takeWhile isDigit u
      in if ds = [] then None
         else Some (if neg then - int (digitsVal ds) else int (digitsVal ds)))"

text \<open>\<open>parseInt(s.trim(), 10) || 0\<close>: \<open>NaN\<close> and \<open>0\<close> are falsy.\<close>

definition parseIntOr0 :: "string \<Rightarrow> int" where
  "parseIntOr0 s = (case parseInt (trim s) of None \<Rightarrow> 0 | Some n \<Rightarrow> n)"

text \<open>Decimal rendering of a non-negative integer, as the engine prints a count and as
  a template literal prints an integer-valued number.\<close>

function showNat :: "nat \<Rightarrow> string" where
  "showNat n = (if n < 10 then [digitChar n] else showNat (n div 10) @ [digitChar (n mod 10)])"
  by pat_completeness auto
termination
  by (relation "measure id") auto

declare showNat.simps [simp del]

definition showInt :: "int \<Rightarrow> string" where
  "showInt i = (if i < 0 then CHR ''-'' # showNat (nat (- i)) else showNat (nat i))"

section \<open>Command-line options\<close>

definition ALLOWED_TABLES :: "string list" where
  "ALLOWED_TABLES = [''ItemTable'', ''cursorDiskKV'']"

text \<open>
  \<open>interface PruneOptions\<close>. At run time \<open>deleteTable\<close> is a string; \<open>thresholdMb\<close> is
  whatever \<open>parseInt\<close> returned, \<open>NaN\<close> included. The fields \<open>checkIntegrity\<close> and
  \<open>countCategories\<close> carry the suffix \<open>Opt\<close> because the functions of the same names
  follow below.
\<close>

record PruneOptions =
  workspace :: bool
  global :: bool
  thresholdMb :: "int option"
  analyze :: bool
  checkIntegrityOpt :: bool
  globalOnlyIntegrity :: bool
  countCategoriesOpt :: bool
  deleteKeysPattern :: "string option"
  deleteTable :: string
  keepLast :: "int option"

definition defaultOptions :: PruneOptions where
  "defaultOptions =
     \<lparr> workspace = True, global = False, thresholdMb = Some 50, analyze = False,
       checkIntegrityOpt = False, globalOnlyIntegrity = False, countCategoriesOpt = False,
       deleteKeysPattern = None, deleteTable = ''ItemTable'', keepLast = None \<rparr>"

text \<open>
  The \<open>for\<close> loop of \<open>parseArgs\<close> over \<open>args[i..]\<close>: \<open>arg\<close> is \<open>args[i]\<close>, \<open>rest\<close> is what
  follows, so \<open>i + 1 < args.length\<close> is \<open>rest \<noteq> []\<close> and the extra \<open>i++\<close> drops the head of
  \<open>rest\<close>.
\<close>

fun parseLoop :: "PruneOptions \<Rightarrow> string list \<Rightarrow> PruneOptions" where
  "parseLoop options [] = options"
| "parseLoop options (arg # rest) =
     (if arg = ''--workspace'' then parseLoop (options\<lparr>workspace := True\<rparr>) rest
      else if arg = ''--global'' then parseLoop (options\<lparr>global := True\<rparr>) rest
      else if arg = ''--analyze'' then parseLoop (options\<lparr>analyze := True\<rparr>) rest
      else if arg = ''--check-integrity'' then parseLoop (options\<lparr>checkIntegrityOpt := True\<rparr>) rest
      else if arg = ''--global-only'' then parseLoop (options\<lparr>globalOnlyIntegrity := True\<rparr>) rest
      else if arg = ''--count-categories'' then parseLoop (options\<lparr>countCategoriesOpt := True\<rparr>) rest
      else if arg = ''--threshold'' \<and> rest \<noteq> [] then
        parseLoop (options\<lparr>thresholdMb := parseInt (hd rest)\<rparr>) (tl rest)
      else if arg = ''--table'' \<and> rest \<noteq> [] then
        parseLoop (if hd rest \<in> set ALLOWED_TABLES then options\<lparr>deleteTable := hd rest\<rparr> else options)
          (tl rest)
      else if arg = ''--delete-keys'' \<and> rest \<noteq> [] then
        parseLoop (options\<lparr>deleteKeysPattern := Some (hd rest)\<rparr>) (tl rest)
      else if arg = ''--keep-last'' \<and> rest \<noteq> [] then
        parseLoop (case parseInt (hd rest) of
                     Some n \<Rightarrow> if n > 0 then options\<lparr>keepLast := Some n\<rparr> else options
                   | None \<Rightarrow> options)
          (tl rest)
      else parseLoop options rest)"

definition parseArgs :: "string list \<Rightarrow> PruneOptions" where
  "parseArgs args = parseLoop defaultOptions args"

section \<open>The SQLite engine\<close>

text \<open>
  The engine is an external program. It is modelled for the statements this script
  issues: the statement text is read back by \<open>parseSql\<close> (string literals lexed by the
  SQL rule: a doubled quote is one quote character, a single quote ends the literal) and
  executed on a table model of the file. Text of any other shape is an engine error.
  Both tables have the columns \<open>key\<close> and \<open>value\<close>. The two size queries of the report
  (\<open>Report\<close>) print to the console only; their output is not modelled.
\<close>

type_synonym row = "int \<times> string \<times> string"

definition rowid :: "row \<Rightarrow> int" where
  "rowid r = fst r"

definition rowKey :: "row \<Rightarrow> string" where
  "rowKey r = fst (snd r)"

definition rowValue :: "row \<Rightarrow> string" where
  "rowValue r = snd (snd r)"

text \<open>
  One database file: its tables by name, each with the rows \<open>(rowid, key, value)\<close> in
  storage order. \<open>vacuumedBytes\<close> is the size the engine leaves the file with when it
  runs \<open>VACUUM\<close>; \<open>quickCheck\<close> and \<open>integrityCheck\<close> are what the two pragmas print;
  \<open>busy\<close> says that the engine cannot work on the file (locked by the IDE).
\<close>

record dbfile =
  tables :: "(string \<times> row list) list"
  bytes :: nat
  vacuumedBytes :: nat
  quickCheck :: string
  integrityCheck :: string
  busy :: bool

datatype stmt =
    CountLike string string
  | SumLengthLike string string
  | DeleteLike string string
  | DeleteLikeKeep string string int
  | QuickCheck
  | IntegrityCheck
  | ListTables
  | TableInfo string
  | Report

datatype error = EngineNotFound | EngineExecutionFailed | VacuumFailed | StatFailed

definition lowerAscii :: "char \<Rightarrow> char" where
  "lowerAscii c =
     (if 65 \<le> (of_char c :: nat) \<and> (of_char c :: nat) \<le> 90 then char_of ((of_char c :: nat) + 32) else c)"

text \<open>SQLite's \<open>key LIKE pattern\<close>: \<open>%\<close> is any run of characters, \<open>_\<close> is one character,
  ASCII letters compare without case, there is no escape character.\<close>

fun likeMatch :: "string \<Rightarrow> string \<Rightarrow> bool" where
  "likeMatch [] s = (s = [])"
| "likeMatch (p # ps) [] = (p = CHR ''%'' \<and> likeMatch ps [])"
| "likeMatch (p # ps) (c # cs) =
     (if p = CHR ''%'' then likeMatch ps (c # cs) \<or> likeMatch (p # ps) cs
      else (p = CHR ''_'' \<or> lowerAscii p = lowerAscii c) \<and> likeMatch ps cs)"

definition matching :: "string \<Rightarrow> row list \<Rightarrow> row list" where
  "matching pat rows = filter (\<lambda>r. likeMatch pat (rowKey r)) rows"

text \<open>\<open>LIMIT n\<close>: a negative limit is no limit.\<close>

definition limit :: "int \<Rightarrow> 'a list \<Rightarrow> 'a list" where
  "limit n xs = (if n < 0 then xs else take (nat n) xs)"

text \<open>\<open>SELECT rowid FROM t WHERE key LIKE pat ORDER BY rowid DESC LIMIT n\<close>.\<close>

definition newestRowids :: "string \<Rightarrow> int \<Rightarrow> row list \<Rightarrow> int list" where
  "newestRowids pat n rows = limit n (rev (sort (map rowid (matching pat rows))))"

definition deleteLikeKeep :: "string \<Rightarrow> int \<Rightarrow> row list \<Rightarrow> row list" where
  "deleteLikeKeep pat n rows =
     filter (\<lambda>r. \<not> (likeMatch pat (rowKey r) \<and> rowid r \<notin> set (newestRowids pat n rows))) rows"

definition newline :: char where
  "newline = CHR 0x0A"

definition onTable :: "dbfile \<Rightarrow> string \<Rightarrow> (row list \<Rightarrow> string \<times> dbfile) \<Rightarrow> error + string \<times> dbfile" where
  "onTable db t f = (case map_of (tables db) t of None \<Rightarrow> Inl EngineExecutionFailed | Some rows \<Rightarrow> Inr (f rows))"

definition setTable :: "dbfile \<Rightarrow> string \<Rightarrow> row list \<Rightarrow> dbfile" where
  "setTable db t rows = db\<lparr>tables := map (\<lambda>(n, rs). if n = t then (n, rows) else (n, rs)) (tables db)\<rparr>"

definition unlines :: "string list \<Rightarrow> string" where
  "unlines ls = concat (map (\<lambda>l. l @ [newline]) ls)"

definition execSql :: "dbfile \<Rightarrow> stmt \<Rightarrow> error + string \<times> dbfile" where
  "execSql db st =
     (if busy db then Inl EngineExecutionFailed
      else case st of
        CountLike t pat \<Rightarrow>
          onTable db t (\<lambda>rows. (showNat (length (matching pat rows)) @ [newline], db))
      | SumLengthLike t pat \<Rightarrow>
          onTable db t (\<lambda>rows. (showNat (sum_list (map (\<lambda>r. length (rowValue r)) (matching pat rows))) @ [newline], db))
      | DeleteLike t pat \<Rightarrow>
          onTable db t (\<lambda>rows. ([], setTable db t (filter (\<lambda>r. \<not> likeMatch pat (rowKey r)) rows)))
      | DeleteLikeKeep t pat n \<Rightarrow>
          onTable db t (\<lambda>rows. ([], setTable db t (deleteLikeKeep pat n rows)))
      | QuickCheck \<Rightarrow> Inr (quickCheck db, db)
      | IntegrityCheck \<Rightarrow> Inr (integrityCheck db, db)
      | ListTables \<Rightarrow> Inr (unlines (sort (map fst (tables db))), db)
      | TableInfo t \<Rightarrow>
          Inr (if map_of (tables db) t = None then []
               else unlines [''0|key|TEXT|0||0'', ''1|value|BLOB|0||0''], db)
      | Report \<Rightarrow> Inr ([], db))"

subsection \<open>Reading a statement back from its text\<close>

definition stripPrefix :: "string \<Rightarrow> string \<Rightarrow> string option" where
  "stripPrefix p s = (if prefix p s then Some (drop (length p) s) else None)"

text \<open>The body of a string literal, after its opening quote: the value and what follows
  the closing quote. \<open>None\<close> is an unterminated literal.\<close>

fun lexBody :: "string \<Rightarrow> (string \<times> string) option" where
  "lexBody [] = None"
| "lexBody [c] = (if c = quote then Some ([], []) else None)"
| "lexBody (c # d # ds) =
     (if c = quote then
        (if d = quote then map_option (\<lambda>(v, r). (quote # v, r)) (lexBody ds) else Some ([], d # ds))
      else map_option (\<lambda>(v, r). (c # v, r)) (lexBody (d # ds)))"

definition lexLiteral :: "string \<Rightarrow> (string \<times> string) option" where
  "lexLiteral s = (case s of [] \<Rightarrow> None | c # cs \<Rightarrow> if c = quote then lexBody cs else None)"

definition isIdent :: "char \<Rightarrow> bool" where
  "isIdent c = (isDigit c \<or> c = CHR ''_'' \<or> (97 \<le> (of_char (lowerAscii c) :: nat) \<and> (of_char (lowerAscii c) :: nat) \<le> 122))"

text \<open>\<open>t WHERE key LIKE 'lit'\<close>: table, literal value, rest.\<close>

definition parseTableLike :: "string \<Rightarrow> (string \<times> string \<times> string) option" where
  "parseTableLike s =
     (let t = takeWhile isIdent s in
      if t = [] then None
      else case stripPrefix '' WHERE key LIKE '' (dropWhile isIdent s) of
        None \<Rightarrow> None
      | Some r \<Rightarrow> (case lexLiteral r of None \<Rightarrow> None | Some (pat, rest) \<Rightarrow> Some (t, pat, rest)))"

text \<open>The tail of the retention delete: the sub-select has to name the same table and
  pattern, and the limit has to be a plain decimal.\<close>

definition parseKeepTail :: "string \<Rightarrow> string \<Rightarrow> string \<Rightarrow> stmt option" where
  "parseKeepTail t pat rest =
     (case stripPrefix '' AND rowid NOT IN (SELECT rowid FROM '' rest of
        None \<Rightarrow> None
      | Some r \<Rightarrow>
        (case parseTableLike r of
           None \<Rightarrow> None
         | Some (t2, pat2, rest2) \<Rightarrow>
           (case stripPrefix '' ORDER BY rowid DESC LIMIT '' rest2 of
              None \<Rightarrow> None
            | Some r3 \<Rightarrow>
              (let neg = (r3 \<noteq> [] \<and> hd r3 = CHR ''-'');
                   u = (if neg then tl r3 else r3);
                   ds = takeWhile isDigit u
               in if t2 = t \<and> pat2 = pat \<and> ds \<noteq> [] \<and> dropWhile isDigit u = '');''
                  then Some (DeleteLikeKeep t pat (if neg then - int (digitsVal ds) else int (digitsVal ds)))
                  else None))))"

definition listTablesSql :: string where
  "listTablesSql = ''SELECT name FROM sqlite_master WHERE type='' @ [quote] @ ''table'' @ [quote] @ '' ORDER BY name;''"

definition parseSql :: "string \<Rightarrow> stmt option" where
  "parseSql s =
     (if s = ''PRAGMA quick_check;'' then Some QuickCheck
      else if s = ''PRAGMA integrity_check;'' then Some IntegrityCheck
      else case stripPrefix ''SELECT COUNT(*) FROM '' s of
        Some r \<Rightarrow>
          (case parseTableLike r of
             Some (t, pat, rest) \<Rightarrow> if rest = '';'' then Some (CountLike t pat) else None
           | None \<Rightarrow> None)
      | None \<Rightarrow>
        (case stripPrefix ''SELECT COALESCE(SUM(LENGTH(value)), 0) FROM '' s of
           Some r \<Rightarrow>
             (case parseTableLike r of
                Some (t, pat, rest) \<Rightarrow> if rest = '';'' then Some (SumLengthLike t pat) else None
              | None \<Rightarrow> None)
         | None \<Rightarrow>
           (case stripPrefix ''DELETE FROM '' s of
              Some r \<Rightarrow>
                (case parseTableLike r of
                   Some (t, pat, rest) \<Rightarrow>
                     if rest = '';'' then Some (DeleteLike t pat) else parseKeepTail t pat rest
                 | None \<Rightarrow> None)
            | None \<Rightarrow>
              if s = listTablesSql then Some ListTables
              else case stripPrefix ''PRAGMA table_info('' s of
                Some r \<Rightarrow> if dropWhile isIdent r = '');'' then Some (TableInfo (takeWhile isIdent r)) else None
              | None \<Rightarrow> if prefix ''SELECT '' s then Some Report else None)))"

section \<open>The world the script runs in\<close>

text \<open>
  A path holds a database file or a directory. For a directory the model keeps what
  \<open>readdirSync(dir, {withFileTypes: true}).filter(d => d.isDirectory())\<close> returns: the names
  of its sub-directories, or \<open>None\<close> when reading it throws.
\<close>

datatype node = File dbfile | Dir "string list option"

text \<open>What the script does to the outside: the \<open>sqlite3 --version\<close> probe, a statement
  handed to \<open>runSqliteQuery\<close> (command, file, SQL text) and the \<open>VACUUM\<close> command line
  (command, file).\<close>

datatype event = VersionProbe | Query string string string | VacuumCmd string string

record world =
  cwd :: string
  home :: string
  APPDATA :: "string option"
  LOCALAPPDATA :: "string option"
  pathSep :: string
  sqlite3OnPath :: bool
  fs :: "string \<Rightarrow> node option"
  trace :: "event list"

type_synonym 'a result = "(error + 'a) \<times> world"

definition emit :: "event \<Rightarrow> world \<Rightarrow> world" where
  "emit e w = w\<lparr>trace := trace w @ [e]\<rparr>"

text \<open>\<open>path.join\<close>: empty segments are skipped, the others are joined by the platform's
  separator. The normalisation of \<open>.\<close>, \<open>..\<close> and repeated separators is not modelled.\<close>

fun intercalate :: "string \<Rightarrow> string list \<Rightarrow> string" where
  "intercalate sep [] = []"
| "intercalate sep [x] = x"
| "intercalate sep (x # y # ys) = x @ sep @ intercalate sep (y # ys)"

definition join :: "world \<Rightarrow> string list \<Rightarrow> string" where
  "join w parts = intercalate (pathSep w) (filter (\<lambda>p. p \<noteq> []) parts)"

definition existsSync :: "world \<Rightarrow> string \<Rightarrow> bool" where
  "existsSync w p = (fs w p \<noteq> None)"

text \<open>\<open>for (const path of possiblePaths) if (existsSync(path)) return path; return null\<close>.\<close>

definition firstExisting :: "world \<Rightarrow> string list \<Rightarrow> string option" where
  "firstExisting w ps = (case filter (existsSync w) ps of [] \<Rightarrow> None | p # _ \<Rightarrow> Some p)"

definition getWorkspaceStatePath :: "world \<Rightarrow> string option" where
  "getWorkspaceStatePath w =
     firstExisting w
       [join w [cwd w, ''.vscode'', ''state.vscdb''],
        join w [cwd w, ''.cursor'', ''state.vscdb'']]"

text \<open>\<open>if (appData)\<close>: an unset variable and the empty string are both falsy.\<close>

definition envSet :: "string option \<Rightarrow> bool" where
  "envSet v = (case v of None \<Rightarrow> False | Some s \<Rightarrow> s \<noteq> [])"

definition envOr :: "string option \<Rightarrow> string" where
  "envOr v = (case v of None \<Rightarrow> [] | Some s \<Rightarrow> s)"

definition getGlobalStatePath :: "world \<Rightarrow> string option" where
  "getGlobalStatePath w =
     firstExisting w
       ((if envSet (APPDATA w) then
           [join w [envOr (APPDATA w), ''Cursor'', ''User'', ''globalStorage'', ''state.vscdb''],
            join w [envOr (APPDATA w), ''Code'', ''User'', ''globalStorage'', ''state.vscdb'']]
         else []) @
        [join w [home w, ''AppData'', ''Roaming'', ''Cursor'', ''User'', ''globalStorage'', ''state.vscdb''],
         join w [home w, ''AppData'', ''Roaming'', ''Code'', ''User'', ''globalStorage'', ''state.vscdb''],
         join w [home w, ''.config'', ''Cursor'', ''User'', ''globalStorage'', ''state.vscdb''],
         join w [home w, ''.config'', ''Code'', ''User'', ''globalStorage'', ''state.vscdb''],
         join w [home w, ''Library'', ''Application Support'', ''Cursor'', ''User'', ''globalStorage'', ''state.vscdb''],
         join w [home w, ''Library'', ''Application Support'', ''Code'', ''User'', ''globalStorage'', ''state.vscdb'']])"

text \<open>The closure \<open>add\<close> of \<open>getAllStateVscdbPaths\<close>; \<open>seen\<close> holds exactly the paths
  already in \<open>out\<close>.\<close>

definition add :: "world \<Rightarrow> (string \<times> string) list \<Rightarrow> string \<times> string \<Rightarrow> (string \<times> string) list" where
  "add w out e =
     (if \<not> existsSync w (fst e) \<or> fst e \<in> set (map fst out) then out else out @ [e])"

definition wsDirs :: "world \<Rightarrow> string list" where
  "wsDirs w =
     (if envSet (APPDATA w) then
        [join w [envOr (APPDATA w), ''Cursor'', ''User'', ''workspaceStorage''],
         join w [envOr (APPDATA w), ''Code'', ''User'', ''workspaceStorage'']]
      else
        [join w [home w, ''AppData'', ''Roaming'', ''Cursor'', ''User'', ''workspaceStorage''],
         join w [home w, ''AppData'', ''Roaming'', ''Code'', ''User'', ''workspaceStorage''],
         join w [home w, ''.config'', ''Cursor'', ''User'', ''workspaceStorage''],
         join w [home w, ''.config'', ''Code'', ''User'', ''workspaceStorage''],
         join w [home w, ''Library'', ''Application Support'', ''Cursor'', ''User'', ''workspaceStorage''],
         join w [home w, ''Library'', ''Application Support'', ''Code'', ''User'', ''workspaceStorage'']])"

text \<open>The workspaces of one \<open>workspaceStorage\<close> directory; a directory that is missing
  or cannot be read contributes nothing.\<close>

definition wsEntries :: "world \<Rightarrow> string \<Rightarrow> (string \<times> string) list" where
  "wsEntries w wsDir =
     (case fs w wsDir of
        Some (Dir (Some ids)) \<Rightarrow>
          map (\<lambda>name. (join w [wsDir, name, ''state.vscdb''], ''WorkspaceStorage/'' @ name @ '' state.vscdb'')) ids
      | _ \<Rightarrow> [])"

definition getAllStateVscdbPaths :: "world \<Rightarrow> (string \<times> string) list" where
  "getAllStateVscdbPaths w =
     (let out1 = (case getWorkspaceStatePath w of
                    Some p \<Rightarrow> add w [] (p, ''Workspace (project) state.vscdb'')
                  | None \<Rightarrow> []);
          out2 = foldl (add w) out1 (concat (map (wsEntries w) (wsDirs w)))
      in case getGlobalStatePath w of
           Some p \<Rightarrow> add w out2 (p, ''Global state.vscdb'')
         | None \<Rightarrow> out2)"

text \<open>\<open>statSync(filePath).size / (1024 * 1024)\<close>; the division by a power of two is exact
  in floating point. A missing path throws; a directory is given size 0.\<close>

definition getFileSizeMb :: "world \<Rightarrow> string \<Rightarrow> error + rat" where
  "getFileSizeMb w filePath =
     (case fs w filePath of
        None \<Rightarrow> Inl StatFailed
      | Some (File db) \<Rightarrow> Inr (of_nat (bytes db) / 1048576)
      | Some (Dir _) \<Rightarrow> Inr 0)"

definition backslash :: char where
  "backslash = CHR 0x5C"

definition winPaths :: "world \<Rightarrow> string list" where
  "winPaths w =
     [''C:'' @ [backslash] @ ''Program Files'' @ [backslash] @ ''SQLite'' @ [backslash] @ ''sqlite3.exe'',
      ''C:'' @ [backslash] @ ''Program Files (x86)'' @ [backslash] @ ''SQLite'' @ [backslash] @ ''sqlite3.exe'',
      join w [envOr (LOCALAPPDATA w), ''Programs'', ''sqlite3'', ''sqlite3.exe'']]"

definition getSqlite3Command :: "world \<Rightarrow> string result" where
  "getSqlite3Command w =
     (let w1 = emit VersionProbe w in
      if sqlite3OnPath w1 then (Inr ''sqlite3'', w1)
      else case firstExisting w1 (winPaths w1) of
             Some winPath \<Rightarrow> (Inr winPath, w1)
           | None \<Rightarrow> (Inl EngineNotFound, w1))"

text \<open>
  \<open>runSqliteQuery\<close>: the command line \<open>"cmd" "file" JSON.stringify(sql)\<close> is taken to reach
  the engine as these three arguments (the shell's own quoting rules are outside the
  model). A path that holds no database file is an engine error.
\<close>

definition runSqliteQuery :: "world \<Rightarrow> string \<Rightarrow> string \<Rightarrow> string \<Rightarrow> string result" where
  "runSqliteQuery w filePath sql sqlite3Cmd =
     (let w1 = emit (Query sqlite3Cmd filePath sql) w in
      case fs w1 filePath of
        Some (File db) \<Rightarrow>
          (case parseSql sql of
             None \<Rightarrow> (Inl EngineExecutionFailed, w1)
           | Some st \<Rightarrow>
             (case execSql db st of
                Inl e \<Rightarrow> (Inl e, w1)
              | Inr (out, db') \<Rightarrow> (Inr out, w1\<lparr>fs := (fs w1)(filePath \<mapsto> File db')\<rparr>)))
      | _ \<Rightarrow> (Inl EngineExecutionFailed, w1))"

text \<open>\<open>execSync(`"${cmd}" "${filePath}" "VACUUM;"`)\<close>: the tables keep their rows, the file
  gets the size the engine packs it to.\<close>

definition execVacuum :: "world \<Rightarrow> string \<Rightarrow> string \<Rightarrow> unit result" where
  "execVacuum w cmd filePath =
     (let w1 = emit (VacuumCmd cmd filePath) w in
      case fs w1 filePath of
        Some (File db) \<Rightarrow>
          if busy db then (Inl EngineExecutionFailed, w1)
          else (Inr (), w1\<lparr>fs := (fs w1)(filePath \<mapsto> File (db\<lparr>bytes := vacuumedBytes db\<rparr>))\<rparr>)
      | _ \<Rightarrow> (Inl EngineExecutionFailed, w1))"

section \<open>Database maintenance operations\<close>

text \<open>\<open>vacuumDatabase(filePath, sqlite3Cmd?)\<close> returns \<open>{ beforeMb, afterMb }\<close>; a failing
  \<open>VACUUM\<close> is thrown again as \<open>Failed to run VACUUM\<close>.\<close>

definition vacuumDatabase :: "world \<Rightarrow> string \<Rightarrow> string option \<Rightarrow> (rat \<times> rat) result" where
  "vacuumDatabase w filePath sqlite3Cmd =
     (case (case sqlite3Cmd of Some c \<Rightarrow> (Inr c, w) | None \<Rightarrow> getSqlite3Command w) of
        (Inl e, w1) \<Rightarrow> (Inl e, w1)
      | (Inr cmd, w1) \<Rightarrow>
        (case getFileSizeMb w1 filePath of
           Inl e \<Rightarrow> (Inl e, w1)
         | Inr beforeMb \<Rightarrow>
           (case execVacuum w1 cmd filePath of
              (Inl e, w2) \<Rightarrow> (Inl VacuumFailed, w2)
            | (Inr u, w2) \<Rightarrow>
              (case getFileSizeMb w2 filePath of
                 Inl e \<Rightarrow> (Inl e, w2)
               | Inr afterMb \<Rightarrow> (Inr (beforeMb, afterMb), w2)))))"

text \<open>\<open>sizeMb < thresholdMb\<close>; a comparison with \<open>NaN\<close> is false.\<close>

definition belowThreshold :: "rat \<Rightarrow> int option \<Rightarrow> bool" where
  "belowThreshold sizeMb thr = (case thr of None \<Rightarrow> False | Some t \<Rightarrow> sizeMb < of_int t)"

definition pruneDatabase :: "world \<Rightarrow> string \<Rightarrow> string \<Rightarrow> int option \<Rightarrow> bool result" where
  "pruneDatabase w filePath label thr =
     (case getFileSizeMb w filePath of
        Inl e \<Rightarrow> (Inl e, w)
      | Inr sizeMb \<Rightarrow>
        if belowThreshold sizeMb thr then (Inr False, w)
        else (case vacuumDatabase w filePath None of
                (Inl e, w1) \<Rightarrow> (Inr False, w1)
              | (Inr r, w1) \<Rightarrow> (Inr True, w1)))"

subsection \<open>The analysis report\<close>

fun splitOn :: "char \<Rightarrow> string \<Rightarrow> string list" where
  "splitOn c [] = [[]]"
| "splitOn c (x # xs) =
     (if x = c then [] # splitOn c xs
      else case splitOn c xs of l # ls \<Rightarrow> (x # l) # ls | [] \<Rightarrow> [[x]])"

text \<open>\<open>out.trim().split(/\r?\n/)\<close>; every use below trims the pieces, which removes the
  carriage return the regular expression would have taken.\<close>

definition outLines :: "string \<Rightarrow> string list" where
  "outLines out = splitOn newline (trim out)"

definition nonEmpty :: "string list \<Rightarrow> string list" where
  "nonEmpty ls = filter (\<lambda>l. l \<noteq> []) ls"

text \<open>\<open>xs[i] || dflt\<close> on strings: a missing element and the empty string are falsy.\<close>

definition nthOr :: "string list \<Rightarrow> nat \<Rightarrow> string \<Rightarrow> string" where
  "nthOr xs i dflt = (if i < length xs \<and> xs ! i \<noteq> [] then xs ! i else dflt)"

definition tableInfoSql :: "string \<Rightarrow> string" where
  "tableInfoSql table = ''PRAGMA table_info('' @ table @ '');''"

definition sumLengthSql :: "string \<Rightarrow> string \<Rightarrow> string" where
  "sumLengthSql valueCol tableName = ''SELECT SUM(LENGTH('' @ valueCol @ '')) FROM '' @ tableName @ '';''"

definition topKeysSql :: "string \<Rightarrow> string \<Rightarrow> string \<Rightarrow> nat \<Rightarrow> string" where
  "topKeysSql keyCol valueCol tableName topN =
     ''SELECT '' @ keyCol @ '', ROUND(LENGTH('' @ valueCol @ '')/1024.0/1024.0, 2) AS size_mb FROM '' @ tableName
       @ '' ORDER BY LENGTH('' @ valueCol @ '') DESC LIMIT '' @ showNat topN @ '';''"

text \<open>The closure \<open>runTopKeys\<close>; what it prints is left out.\<close>

definition runTopKeys :: "world \<Rightarrow> string \<Rightarrow> string \<Rightarrow> string \<Rightarrow> string \<Rightarrow> string \<Rightarrow> nat \<Rightarrow> unit result" where
  "runTopKeys w filePath sqlite3 tableName keyCol valueCol topN =
     (case runSqliteQuery w filePath (sumLengthSql valueCol tableName) sqlite3 of
        (Inl e, w1) \<Rightarrow> (Inl e, w1)
      | (Inr sumOut, w1) \<Rightarrow>
        (case runSqliteQuery w1 filePath (topKeysSql keyCol valueCol tableName topN) sqlite3 of
           (Inl e, w2) \<Rightarrow> (Inl e, w2)
         | (Inr topOut, w2) \<Rightarrow> (Inr (), w2)))"

text \<open>The loop over the two known tables; an error inside one table's \<open>try\<close> skips that
  table.\<close>

fun analyzeTables :: "world \<Rightarrow> string \<Rightarrow> string \<Rightarrow> string list \<Rightarrow> string list \<Rightarrow> world" where
  "analyzeTables w filePath sqlite3 tabs [] = w"
| "analyzeTables w filePath sqlite3 tabs (table # others) =
     (if table \<notin> set tabs then analyzeTables w filePath sqlite3 tabs others
      else case runSqliteQuery w filePath (tableInfoSql table) sqlite3 of
        (Inl e, w1) \<Rightarrow> analyzeTables w1 filePath sqlite3 tabs others
      | (Inr infoOut, w1) \<Rightarrow>
        (let cols = nonEmpty (map (\<lambda>r. trim (nthOr (splitOn CHR ''|'' r) 1 (nthOr (splitOn (CHR 0x09) r) 1 []))) (outLines infoOut));
             keyCol = nthOr cols 0 ''key'';
             valueCol = nthOr cols 1 ''value''
         in analyzeTables (snd (runTopKeys w1 filePath sqlite3 table keyCol valueCol 50)) filePath sqlite3 tabs others))"

definition analyzeGlobalStateVscdb :: "world \<Rightarrow> string \<Rightarrow> unit result" where
  "analyzeGlobalStateVscdb w filePath =
     (case getSqlite3Command w of
        (Inl e, w1) \<Rightarrow> (Inl e, w1)
      | (Inr sqlite3, w1) \<Rightarrow>
        (case getFileSizeMb w1 filePath of
           Inl e \<Rightarrow> (Inl e, w1)
         | Inr fileMb \<Rightarrow>
           (case runSqliteQuery w1 filePath listTablesSql sqlite3 of
              (Inl e, w2) \<Rightarrow> (Inr (), w2)
            | (Inr tablesOut, w2) \<Rightarrow>
              (Inr (), analyzeTables w2 filePath sqlite3 (nonEmpty (map trim (outLines tablesOut)))
                         [''ItemTable'', ''cursorDiskKV'']))))"

subsection \<open>Delete by pattern, with retention\<close>

text \<open>The parameter \<open>keepLast\<close> of \<open>deleteKeysAndVacuum\<close> is called \<open>keep\<close> below, the
  name \<open>keepLast\<close> being the field of the options.\<close>

text \<open>\<open>pattern.replace(/'/g, "''")\<close> and \<open>`'${escaped}'`\<close>.\<close>

definition escapeQuotes :: "string \<Rightarrow> string" where
  "escapeQuotes pattern = concat (map (\<lambda>c. if c = quote then [quote, quote] else [c]) pattern)"

definition likeLiteralOf :: "string \<Rightarrow> string" where
  "likeLiteralOf pattern = [quote] @ escapeQuotes pattern @ [quote]"

definition countSql :: "string \<Rightarrow> string \<Rightarrow> string" where
  "countSql table likeLiteral = ''SELECT COUNT(*) FROM '' @ table @ '' WHERE key LIKE '' @ likeLiteral @ '';''"

definition sumSql :: "string \<Rightarrow> string \<Rightarrow> string" where
  "sumSql table likeLiteral =
     ''SELECT COALESCE(SUM(LENGTH(value)), 0) FROM '' @ table @ '' WHERE key LIKE '' @ likeLiteral @ '';''"

definition deleteSql :: "string \<Rightarrow> string \<Rightarrow> string" where
  "deleteSql table likeLiteral = ''DELETE FROM '' @ table @ '' WHERE key LIKE '' @ likeLiteral @ '';''"

definition deleteKeepSql :: "string \<Rightarrow> string \<Rightarrow> int \<Rightarrow> string" where
  "deleteKeepSql table likeLiteral keepN =
     ''DELETE FROM '' @ table @ '' WHERE key LIKE '' @ likeLiteral
       @ '' AND rowid NOT IN (SELECT rowid FROM '' @ table @ '' WHERE key LIKE '' @ likeLiteral
       @ '' ORDER BY rowid DESC LIMIT '' @ showInt keepN @ '');''"

definition deleteKeysAndVacuum :: "world \<Rightarrow> string \<Rightarrow> string \<Rightarrow> string \<Rightarrow> int option \<Rightarrow> unit result" where
  "deleteKeysAndVacuum w filePath pattern table keep =
     (case getSqlite3Command w of
        (Inl e, w1) \<Rightarrow> (Inl e, w1)
      | (Inr sqlite3, w1) \<Rightarrow>
        (let likeLiteral = likeLiteralOf pattern in
         case runSqliteQuery w1 filePath (countSql table likeLiteral) sqlite3 of
           (Inl e, w2) \<Rightarrow> (Inl e, w2)
         | (Inr countOut, w2) \<Rightarrow>
           (let count = parseIntOr0 countOut in
            if count = 0 then (Inr (), w2)
            else case getFileSizeMb w2 filePath of
              Inl e \<Rightarrow> (Inl e, w2)
            | Inr beforeMb \<Rightarrow>
              (let toDelete = (case keep of Some k \<Rightarrow> max 0 (count - k) | None \<Rightarrow> count) in
               if toDelete = 0 then (Inr (), w2)
               else case (case keep of
                            Some k \<Rightarrow> runSqliteQuery w2 filePath (deleteKeepSql table likeLiteral k) sqlite3
                          | None \<Rightarrow> runSqliteQuery w2 filePath (deleteSql table likeLiteral) sqlite3) of
                 (Inl e, w3) \<Rightarrow> (Inl e, w3)
               | (Inr out, w3) \<Rightarrow>
                 (case vacuumDatabase w3 filePath (Some sqlite3) of
                    (Inl e, w4) \<Rightarrow> (Inl e, w4)
                  | (Inr sizes, w4) \<Rightarrow>
                    (case getFileSizeMb w4 filePath of
                       Inl e \<Rightarrow> (Inl e, w4)
                     | Inr afterMb \<Rightarrow> (Inr (), w4)))))))"

subsection \<open>Integrity check\<close>

definition checkIntegrity :: "world \<Rightarrow> string \<Rightarrow> string \<Rightarrow> bool result" where
  "checkIntegrity w filePath label =
     (case getSqlite3Command w of
        (Inl e, w1) \<Rightarrow> (Inl e, w1)
      | (Inr sqlite3, w1) \<Rightarrow>
        (case getFileSizeMb w1 filePath of
           Inl e \<Rightarrow> (Inl e, w1)
         | Inr sizeMb \<Rightarrow>
           (case runSqliteQuery w1 filePath ''PRAGMA quick_check;'' sqlite3 of
              (Inl e, w2) \<Rightarrow> (Inr False, w2)
            | (Inr quickOut, w2) \<Rightarrow>
              if trim quickOut \<noteq> ''ok'' then (Inr False, w2)
              else (case runSqliteQuery w2 filePath ''PRAGMA integrity_check;'' sqlite3 of
                      (Inl e, w3) \<Rightarrow> (Inr False, w3)
                    | (Inr integrityOut, w3) \<Rightarrow> (Inr (trim integrityOut = ''ok''), w3)))))"

subsection \<open>Category counts\<close>

definition CATEGORIES :: "(string \<times> string \<times> string) list" where
  "CATEGORIES =
     [(''cursorDiskKV'', ''bubbleId:%'', ''bubbleId:% (cursorDiskKV) - chat bubbles''),
      (''cursorDiskKV'', ''checkpointId:%'', ''checkpointId:% (cursorDiskKV) - Composer checkpoints''),
      (''cursorDiskKV'', ''composerData:%'', ''composerData:% (cursorDiskKV) - Composer session metadata''),
      (''cursorDiskKV'', ''agentKv:blob:%'', ''agentKv:blob:% (cursorDiskKV) - agent/blob cache''),
      (''ItemTable'', ''cursor.composer%'', ''cursor.composer% (ItemTable) - small UI state'')]"

text \<open>The loop of \<open>countCategories\<close>: count, then size, each category in its own \<open>try\<close>.
  The result lists \<open>(label, count, totalBytes)\<close> of the categories that printed a row.\<close>

fun countLoop :: "world \<Rightarrow> string \<Rightarrow> string \<Rightarrow> (string \<times> string \<times> string) list \<Rightarrow> (string \<times> int \<times> int) list \<times> world" where
  "countLoop w filePath sqlite3 [] = ([], w)"
| "countLoop w filePath sqlite3 ((table, pattern, label) # others) =
     (let likeLiteral = likeLiteralOf pattern in
      case runSqliteQuery w filePath (countSql table likeLiteral) sqlite3 of
        (Inl e, w1) \<Rightarrow> countLoop w1 filePath sqlite3 others
      | (Inr countOut, w1) \<Rightarrow>
        (case runSqliteQuery w1 filePath (sumSql table likeLiteral) sqlite3 of
           (Inl e, w2) \<Rightarrow> countLoop w2 filePath sqlite3 others
         | (Inr sumOut, w2) \<Rightarrow>
           (case countLoop w2 filePath sqlite3 others of
              (rows, w3) \<Rightarrow> ((label, parseIntOr0 countOut, parseIntOr0 sumOut) # rows, w3))))"

definition countCategories :: "world \<Rightarrow> string \<Rightarrow> (string \<times> int \<times> int) list result" where
  "countCategories w filePath =
     (case getSqlite3Command w of
        (Inl e, w1) \<Rightarrow> (Inl e, w1)
      | (Inr sqlite3, w1) \<Rightarrow>
        (case getFileSizeMb w1 filePath of
           Inl e \<Rightarrow> (Inl e, w1)
         | Inr sizeMb \<Rightarrow>
           (case countLoop w1 filePath sqlite3 CATEGORIES of (rows, w2) \<Rightarrow> (Inr rows, w2))))"

section \<open>The entry point\<close>

text \<open>The loop of the \<open>--check-integrity\<close> branch; the result is \<open>okCount\<close>.\<close>

fun integrityLoop :: "world \<Rightarrow> (string \<times> string) list \<Rightarrow> nat \<Rightarrow> nat result" where
  "integrityLoop w [] okCount = (Inr okCount, w)"
| "integrityLoop w ((filePath, label) # others) okCount =
     (case checkIntegrity w filePath label of
        (Inl e, w1) \<Rightarrow> (Inl e, w1)
      | (Inr ok, w1) \<Rightarrow> integrityLoop w1 others (if ok then Suc okCount else okCount))"

text \<open>The loop of the branch \<open>if (options.workspace)\<close> (``prune all''); the counters are
  \<open>prunedCount\<close> and \<open>totalSavedMb\<close>.\<close>

fun pruneAll :: "world \<Rightarrow> int option \<Rightarrow> (string \<times> string) list \<Rightarrow> nat \<times> rat \<Rightarrow> (nat \<times> rat) result" where
  "pruneAll w thr [] acc = (Inr acc, w)"
| "pruneAll w thr ((filePath, label) # others) acc =
     (case getFileSizeMb w filePath of
        Inl e \<Rightarrow> (Inl e, w)
      | Inr beforeMb \<Rightarrow>
        (case pruneDatabase w filePath label thr of
           (Inl e, w1) \<Rightarrow> (Inl e, w1)
         | (Inr pruned, w1) \<Rightarrow>
           if pruned then
             (case getFileSizeMb w1 filePath of
                Inl e \<Rightarrow> (Inl e, w1)
              | Inr afterMb \<Rightarrow> pruneAll w1 thr others (Suc (fst acc), snd acc + (beforeMb - afterMb)))
           else pruneAll w1 thr others acc))"

text \<open>The branch \<open>if (options.global && !options.workspace)\<close> (``prune global only'').\<close>

definition pruneGlobalOnly :: "world \<Rightarrow> int option \<Rightarrow> nat \<times> rat \<Rightarrow> (nat \<times> rat) result" where
  "pruneGlobalOnly w thr acc =
     (case getGlobalStatePath w of
        None \<Rightarrow> (Inr acc, w)
      | Some globalPath \<Rightarrow>
        (case pruneDatabase w globalPath ''Global state.vscdb'' thr of
           (Inl e, w1) \<Rightarrow> (Inl e, w1)
         | (Inr pruned, w1) \<Rightarrow> (Inr (if pruned then (Suc (fst acc), snd acc) else acc), w1)))"

text \<open>The vacuum run: what \<open>main\<close> does when no other mode is selected. The result is the
  pair of counters it prints at the end.\<close>

definition vacuumRun :: "world \<Rightarrow> PruneOptions \<Rightarrow> (nat \<times> rat) result" where
  "vacuumRun w options =
     (case (if workspace options then pruneAll w (thresholdMb options) (getAllStateVscdbPaths w) (0, 0)
            else (Inr (0, 0), w)) of
        (Inl e, w1) \<Rightarrow> (Inl e, w1)
      | (Inr acc, w1) \<Rightarrow>
        if global options \<and> \<not> workspace options then pruneGlobalOnly w1 (thresholdMb options) acc
        else (Inr acc, w1))"

text \<open>\<open>const r = f(); ...\<close> where only the effect of \<open>f\<close> matters.\<close>

definition discard :: "'a result \<Rightarrow> unit result" where
  "discard r = (case r of (Inl e, w) \<Rightarrow> (Inl e, w) | (Inr x, w) \<Rightarrow> (Inr (), w))"

definition main :: "world \<Rightarrow> string list \<Rightarrow> unit result" where
  "main w args =
     (let options = parseArgs args in
      if countCategoriesOpt options then
        (case getGlobalStatePath w of
           None \<Rightarrow> (Inr (), w)
         | Some globalPath \<Rightarrow> discard (countCategories w globalPath))
      else if checkIntegrityOpt options then
        (if globalOnlyIntegrity options then
           (case getGlobalStatePath w of
              None \<Rightarrow> (Inr (), w)
            | Some globalPath \<Rightarrow> discard (checkIntegrity w globalPath ''Global state.vscdb''))
         else discard (integrityLoop w (getAllStateVscdbPaths w) 0))
      else if analyze options then
        (case getGlobalStatePath w of
           None \<Rightarrow> (Inr (), w)
         | Some globalPath \<Rightarrow>
           (case analyzeGlobalStateVscdb w globalPath of
              (Inl e, w1) \<Rightarrow> (Inl e, w1)
            | (Inr u, w1) \<Rightarrow>
              (case deleteKeysPattern options of
                 None \<Rightarrow> (Inr (), w1)
               | Some pattern \<Rightarrow>
                 if pattern = [] then (Inr (), w1)
                 else deleteKeysAndVacuum w1 globalPath pattern (deleteTable options) (keepLast options))))
      else discard (vacuumRun w options))"

section \<open>Example worlds\<close>

definition exampleRows :: "row list" where
  "exampleRows =
     [(1, ''bubbleId:a'', ''xxxx''), (2, ''other'', ''yy''), (3, ''bubbleId:b'', ''zzzzzz''),
      (4, ''BubbleId:c'', ''u''), (5, ''composerData:1'', ''vv''), (7, ''bubbleId:d'', [])]"

definition exampleDb :: dbfile where
  "exampleDb =
     \<lparr> tables = [(''ItemTable'', [(1, ''cursor.composer.x'', ''abc''), (2, ''workbench.view'', ''de'')]),
                (''cursorDiskKV'', exampleRows)],
       bytes = 3145728, vacuumedBytes = 1048576,
       quickCheck = ''ok'' @ [newline], integrityCheck = ''ok'' @ [newline], busy = False \<rparr>"

definition exampleWorld :: world where
  "exampleWorld =
     \<lparr> cwd = ''/proj'', home = ''/home/u'', APPDATA = None, LOCALAPPDATA = None, pathSep = ''/'',
       sqlite3OnPath = True,
       fs = [''/proj/.cursor/state.vscdb'' \<mapsto> File (exampleDb\<lparr>bytes := 2097152\<rparr>),
             ''/home/u/.config/Cursor/User/workspaceStorage'' \<mapsto> Dir (Some [''ws1'']),
             ''/home/u/.config/Cursor/User/workspaceStorage/ws1/state.vscdb'' \<mapsto> File (exampleDb\<lparr>quickCheck := ''*** in database main ***''\<rparr>),
             ''/home/u/.config/Cursor/User/globalStorage/state.vscdb'' \<mapsto> File exampleDb],
       trace = [] \<rparr>"

text \<open>A file that \<open>VACUUM\<close> leaves larger than it found it.\<close>

definition grownDb :: dbfile where
  "grownDb = exampleDb\<lparr>bytes := 1048576, vacuumedBytes := 2097152\<rparr>"

definition grownWorld :: world where
  "grownWorld = exampleWorld\<lparr>fs := [''/db/state.vscdb'' \<mapsto> File grownDb]\<rparr>"

section \<open>Views of the world used in the statements\<close>

text \<open>The rows of table \<open>t\<close> in the file at \<open>f\<close>, if there is such a file and table.\<close>

definition tableRows :: "world \<Rightarrow> string \<Rightarrow> string \<Rightarrow> row list option" where
  "tableRows w f t = (case fs w f of Some (File db) \<Rightarrow> map_of (tables db) t | _ \<Rightarrow> None)"

text \<open>The same, for a file the engine can work on.\<close>

definition liveRows :: "world \<Rightarrow> string \<Rightarrow> string \<Rightarrow> row list option" where
  "liveRows w f t =
     (case fs w f of Some (File db) \<Rightarrow> if busy db then None else map_of (tables db) t | _ \<Rightarrow> None)"

text \<open>The world with the rows of one table replaced.\<close>

definition setRows :: "world \<Rightarrow> string \<Rightarrow> string \<Rightarrow> row list \<Rightarrow> world" where
  "setRows w f t rows =
     (case fs w f of Some (File db) \<Rightarrow> w\<lparr>fs := (fs w)(f \<mapsto> File (setTable db t rows))\<rparr> | _ \<Rightarrow> w)"

text \<open>What a step added to the trace.\<close>

definition newEvents :: "world \<Rightarrow> world \<Rightarrow> event list" where
  "newEvents w w' = drop (length (trace w)) (trace w')"

text \<open>\<open>n > 0\<close> for \<open>n = parseInt(v, 10)\<close>.\<close>

definition parsesPositive :: "string \<Rightarrow> bool" where
  "parsesPositive v = (case parseInt v of Some n \<Rightarrow> 0 < n | None \<Rightarrow> False)"

text \<open>The arguments that directly follow a \<open>--keep-last\<close>.\<close>

fun keepLastValues :: "string list \<Rightarrow> string list" where
  "keepLastValues (a # b # rest) = (if a = ''--keep-last'' then [b] else []) @ keepLastValues (b # rest)"
| "keepLastValues _ = []"

text \<open>How many times a piece of trace runs the \<open>sqlite3 --version\<close> probe.\<close>

definition probes :: "event list \<Rightarrow> nat" where
  "probes evs = length (filter (\<lambda>e. e = VersionProbe) evs)"

text \<open>The paths of the example world.\<close>

definition projectDb :: string where
  "projectDb = ''/proj/.cursor/state.vscdb''"

definition ws1Db :: string where
  "ws1Db = ''/home/u/.config/Cursor/User/workspaceStorage/ws1/state.vscdb''"

definition globalDb :: string where
  "globalDb = ''/home/u/.config/Cursor/User/globalStorage/state.vscdb''"

text \<open>The world after a successful \<open>VACUUM\<close> of the file at \<open>f\<close> with command \<open>c\<close>.\<close>

definition vacuumed :: "string \<Rightarrow> string \<Rightarrow> world \<Rightarrow> world" where
  "vacuumed c f w =
     (case fs w f of
        Some (File db) \<Rightarrow> (emit (VacuumCmd c f) w)\<lparr>fs := (fs w)(f \<mapsto> File (db\<lparr>bytes := vacuumedBytes db\<rparr>))\<rparr>
      | _ \<Rightarrow> w)"

text \<open>The rows a delete leaves: all non-matching rows, and with a retention count the
  newest matching rows as well.\<close>

definition rowsAfterDelete :: "string \<Rightarrow> int option \<Rightarrow> row list \<Rightarrow> row list" where
  "rowsAfterDelete pat keep rows =
     (case keep of
        None \<Rightarrow> filter (\<lambda>r. \<not> likeMatch pat (rowKey r)) rows
      | Some k \<Rightarrow> deleteLikeKeep pat k rows)"

text \<open>The delete statement that \<open>deleteKeysAndVacuum\<close> issues.\<close>

definition deleteText :: "string \<Rightarrow> string \<Rightarrow> int option \<Rightarrow> string" where
  "deleteText table pat keep =
     (case keep of
        None \<Rightarrow> deleteSql table (likeLiteralOf pat)
      | Some k \<Rightarrow> deleteKeepSql table (likeLiteralOf pat) k)"

section \<open>Decimal text\<close>

lemma parseLoop_workspace: "workspace options \<Longrightarrow> workspace (parseLoop options args)"
  by (induction options args rule: parseLoop.induct) (auto split: option.splits)

lemma digitVal_digitChar: "d < 10 \<Longrightarrow> digitVal (digitChar d) = d"
  by (simp add: digitVal_def digitChar_def)

lemma isDigit_digitChar: "d < 10 \<Longrightarrow> isDigit (digitChar d)"
  by (simp add: isDigit_def digitChar_def)

lemma digitsVal_snoc: "digitsVal (xs @ [c]) = 10 * digitsVal xs + digitVal c"
  by (simp add: digitsVal_def)

lemma showNat_digits: "\<forall>c \<in> set (showNat n). isDigit c"
proof (induction n rule: showNat.induct)
  case (1 n)
  show ?case
  proof (cases "n < 10")
    case True
    then show ?thesis by (subst showNat.simps) (simp add: isDigit_digitChar)
  next
    case False
    then have "\<forall>c \<in> set (showNat (n div 10)). isDigit c" using "1.IH" by simp
    moreover have "isDigit (digitChar (n mod 10))" by (simp add: isDigit_digitChar)
    ultimately show ?thesis using False by (subst showNat.simps) simp
  qed
qed

lemma showNat_nonempty: "showNat n \<noteq> []"
  by (subst showNat.simps) simp

lemma digitsVal_showNat: "digitsVal (showNat n) = n"
proof (induction n rule: showNat.induct)
  case (1 n)
  show ?case
  proof (cases "n < 10")
    case True
    then show ?thesis by (subst showNat.simps) (simp add: digitsVal_def digitVal_digitChar)
  next
    case False
    then have "digitsVal (showNat (n div 10)) = n div 10" using "1.IH" by simp
    then show ?thesis using False
      by (subst showNat.simps) (simp add: digitsVal_snoc digitVal_digitChar)
  qed
qed

lemma isDigit_not_white: "isDigit c \<Longrightarrow> \<not> isWhite c"
  by (auto simp: isDigit_def isWhite_def)

lemma trim_digits_newline:
  assumes "\<forall>c \<in> set ds. isDigit c" "ds \<noteq> []"
  shows "trim (ds @ [newline]) = ds"
proof -
  have nw: "\<forall>c \<in> set ds. \<not> isWhite c" using assms(1) isDigit_not_white by blast
  obtain d ds' where ds: "ds = d # ds'" using assms(2) by (cases ds) auto
  have 1: "dropWhile isWhite (ds @ [newline]) = ds @ [newline]"
    using nw ds by simp
  have wl: "isWhite newline" by (simp add: isWhite_def newline_def)
  have 2: "dropWhile isWhite (rev (ds @ [newline])) = rev ds"
    using nw wl assms(2) by (cases "rev ds") (auto simp: rev_eq_Cons_iff)
  show ?thesis by (simp only: trim_def 1 2 rev_rev_ident)
qed

lemma parseInt_digits:
  assumes "\<forall>c \<in> set ds. isDigit c" "ds \<noteq> []"
  shows "parseInt ds = Some (int (digitsVal ds))"
proof -
  obtain d ds' where ds: "ds = d # ds'" using assms(2) by (cases ds) auto
  have d: "isDigit d" using assms(1) ds by simp
  have nw: "\<not> isWhite d" using d isDigit_not_white by blast
  have nm: "d \<noteq> CHR ''-''" "d \<noteq> CHR ''+''" using d by (auto simp: isDigit_def)
  have tw: "takeWhile isDigit ds = ds" using assms(1) by (simp add: takeWhile_eq_all_conv)
  show ?thesis using nw nm tw ds by (simp add: parseInt_def Let_def)
qed

lemma parseIntOr0_showNat: "parseIntOr0 (showNat n @ [newline]) = int n"
  by (simp add: parseIntOr0_def trim_digits_newline showNat_digits showNat_nonempty parseInt_digits digitsVal_showNat)

section \<open>Statement texts read back as the intended statements\<close>

lemma escapeQuotes_Cons:
  "escapeQuotes (c # p) = (if c = quote then [quote, quote] else [c]) @ escapeQuotes p"
  by (simp add: escapeQuotes_def)

lemma lexBody_escape:
  "rest = [] \<or> hd rest \<noteq> quote \<Longrightarrow> lexBody (escapeQuotes p @ quote # rest) = Some (p, rest)"
proof (induction p)
  case Nil
  then show ?case by (cases rest) (auto simp: escapeQuotes_def)
next
  case (Cons c p)
  obtain d ds where tl: "escapeQuotes p @ quote # rest = d # ds"
    by (cases "escapeQuotes p @ quote # rest") auto
  show ?case
  proof (cases "c = quote")
    case True
    then show ?thesis using Cons by (simp add: escapeQuotes_Cons)
  next
    case False
    have "lexBody (c # d # ds) = Some (c # p, rest)"
      using False Cons tl by simp
    then show ?thesis using False tl by (simp add: escapeQuotes_Cons)
  qed
qed

lemma lexLiteral_likeLiteralOf:
  "rest = [] \<or> hd rest \<noteq> quote \<Longrightarrow> lexLiteral (likeLiteralOf p @ rest) = Some (p, rest)"
  by (simp add: lexLiteral_def likeLiteralOf_def lexBody_escape)

lemma stripPrefix_append: "stripPrefix p (p @ r) = Some r"
  by (simp add: stripPrefix_def)

lemma space_not_ident: "\<not> isIdent CHR '' ''"
  by (simp add: isIdent_def isDigit_def lowerAscii_def)

lemma parseTableLike_ok:
  assumes "t \<noteq> []" "\<forall>c \<in> set t. isIdent c" "rest = [] \<or> hd rest \<noteq> quote"
  shows "parseTableLike (t @ '' WHERE key LIKE '' @ likeLiteralOf p @ rest) = Some (t, p, rest)"
proof -
  let ?s = "t @ '' WHERE key LIKE '' @ likeLiteralOf p @ rest"
  have tw: "takeWhile isIdent ?s = t"
    using assms(2) space_not_ident by (simp add: takeWhile_tail takeWhile_eq_all_conv)
  have dw: "dropWhile isIdent ?s = '' WHERE key LIKE '' @ likeLiteralOf p @ rest"
    using assms(2) space_not_ident by (simp add: dropWhile_append3)
  have sp: "stripPrefix '' WHERE key LIKE '' (dropWhile isIdent ?s) = Some (likeLiteralOf p @ rest)"
    unfolding dw by (rule stripPrefix_append)
  show ?thesis
    unfolding parseTableLike_def tw sp using assms(1,3)
    by (simp add: lexLiteral_likeLiteralOf)
qed

lemma allowed_ident: "t \<in> set ALLOWED_TABLES \<Longrightarrow> t \<noteq> [] \<and> (\<forall>c \<in> set t. isIdent c)"
  by (auto simp: ALLOWED_TABLES_def isIdent_def isDigit_def lowerAscii_def)

lemma takeWhile_digits_then:
  assumes "\<forall>c \<in> set ds. isDigit c" "\<not> isDigit x"
  shows "takeWhile isDigit (ds @ x # r) = ds" "dropWhile isDigit (ds @ x # r) = x # r"
  using assms by (simp_all add: takeWhile_tail takeWhile_eq_all_conv dropWhile_append3)

lemma hd_showNat_digit: "isDigit (hd (showNat n))"
  using showNat_digits [of n] showNat_nonempty [of n] by (cases "showNat n") auto

lemma limit_text_neg:
  fixes k :: int
  assumes "k < 0"
  shows "hd (showInt k @ '');'') = CHR ''-''" "showInt k @ '');'' \<noteq> []"
        "takeWhile isDigit (tl (showInt k @ '');'')) = showNat (nat (- k))"
        "dropWhile isDigit (tl (showInt k @ '');'')) = '');''"
proof -
  have r3: "showInt k @ '');'' = CHR ''-'' # showNat (nat (- k)) @ CHR '')'' # '';''"
    using assms by (simp add: showInt_def)
  have nd: "\<not> isDigit CHR '')''" by (simp add: isDigit_def)
  show "hd (showInt k @ '');'') = CHR ''-''" "showInt k @ '');'' \<noteq> []"
    by (simp_all add: r3)
  show "takeWhile isDigit (tl (showInt k @ '');'')) = showNat (nat (- k))"
       "dropWhile isDigit (tl (showInt k @ '');'')) = '');''"
    unfolding r3 using takeWhile_digits_then [OF showNat_digits nd] by simp_all
qed

lemma limit_text_pos:
  fixes k :: int
  assumes "\<not> k < 0"
  shows "hd (showInt k @ '');'') \<noteq> CHR ''-''"
        "takeWhile isDigit (showInt k @ '');'') = showNat (nat k)"
        "dropWhile isDigit (showInt k @ '');'') = '');''"
proof -
  have r3: "showInt k @ '');'' = showNat (nat k) @ CHR '')'' # '';''"
    using assms by (simp add: showInt_def)
  have nd: "\<not> isDigit CHR '')''" by (simp add: isDigit_def)
  have "hd (showInt k @ '');'') = hd (showNat (nat k))" by (simp add: r3 showNat_nonempty)
  then show "hd (showInt k @ '');'') \<noteq> CHR ''-''"
    using hd_showNat_digit [of "nat k"] by (auto simp: isDigit_def)
  show "takeWhile isDigit (showInt k @ '');'') = showNat (nat k)"
       "dropWhile isDigit (showInt k @ '');'') = '');''"
    unfolding r3 using takeWhile_digits_then [OF showNat_digits nd] by simp_all
qed

lemma parseKeepTail_ok:
  assumes "t \<noteq> []" "\<forall>c \<in> set t. isIdent c"
  shows "parseKeepTail t p ('' AND rowid NOT IN (SELECT rowid FROM '' @ t @ '' WHERE key LIKE '' @ likeLiteralOf p
           @ '' ORDER BY rowid DESC LIMIT '' @ showInt k @ '');'') = Some (DeleteLikeKeep t p k)"
proof -
  let ?rest2 = "'' ORDER BY rowid DESC LIMIT '' @ showInt k @ '');''"
  have 1: "stripPrefix '' AND rowid NOT IN (SELECT rowid FROM ''
             ('' AND rowid NOT IN (SELECT rowid FROM '' @ t @ '' WHERE key LIKE '' @ likeLiteralOf p @ ?rest2)
           = Some (t @ '' WHERE key LIKE '' @ likeLiteralOf p @ ?rest2)"
    by (rule stripPrefix_append)
  have 2: "parseTableLike (t @ '' WHERE key LIKE '' @ likeLiteralOf p @ ?rest2) = Some (t, p, ?rest2)"
    by (rule parseTableLike_ok [OF assms]) (simp add: quote_def)
  have 3: "stripPrefix '' ORDER BY rowid DESC LIMIT '' ?rest2 = Some (showInt k @ '');'')"
    by (rule stripPrefix_append)
  show ?thesis
    unfolding parseKeepTail_def
    apply (simp only: 1 option.case)
    apply (simp only: 2 option.case prod.case)
    apply (simp only: 3 option.case)
    apply (cases "k < 0")
     apply (simp add: Let_def limit_text_neg showNat_nonempty digitsVal_showNat)
    apply (simp add: Let_def limit_text_pos showNat_nonempty digitsVal_showNat)
    done
qed

lemma parseSql_countSql:
  assumes "t \<in> set ALLOWED_TABLES"
  shows "parseSql (countSql t (likeLiteralOf p)) = Some (CountLike t p)"
proof -
  have 0: "countSql t (likeLiteralOf p) \<noteq> ''PRAGMA quick_check;''"
          "countSql t (likeLiteralOf p) \<noteq> ''PRAGMA integrity_check;''"
    by (simp_all add: countSql_def)
  have 1: "stripPrefix ''SELECT COUNT(*) FROM '' (countSql t (likeLiteralOf p))
           = Some (t @ '' WHERE key LIKE '' @ likeLiteralOf p @ '';'')"
    unfolding countSql_def by (rule stripPrefix_append)
  have 2: "parseTableLike (t @ '' WHERE key LIKE '' @ likeLiteralOf p @ '';'') = Some (t, p, '';'')"
    using allowed_ident [OF assms] by (intro parseTableLike_ok) (simp_all add: quote_def)
  show ?thesis
    unfolding parseSql_def
    apply (simp only: 0 if_False 1 option.case)
    apply (simp only: 2 option.case prod.case)
    apply simp
    done
qed

lemma parseSql_sumSql:
  assumes "t \<in> set ALLOWED_TABLES"
  shows "parseSql (sumSql t (likeLiteralOf p)) = Some (SumLengthLike t p)"
proof -
  have 0: "sumSql t (likeLiteralOf p) \<noteq> ''PRAGMA quick_check;''"
          "sumSql t (likeLiteralOf p) \<noteq> ''PRAGMA integrity_check;''"
          "stripPrefix ''SELECT COUNT(*) FROM '' (sumSql t (likeLiteralOf p)) = None"
    by (simp_all add: sumSql_def stripPrefix_def)
  have 1: "stripPrefix ''SELECT COALESCE(SUM(LENGTH(value)), 0) FROM '' (sumSql t (likeLiteralOf p))
           = Some (t @ '' WHERE key LIKE '' @ likeLiteralOf p @ '';'')"
    unfolding sumSql_def by (rule stripPrefix_append)
  have 2: "parseTableLike (t @ '' WHERE key LIKE '' @ likeLiteralOf p @ '';'') = Some (t, p, '';'')"
    using allowed_ident [OF assms] by (intro parseTableLike_ok) (simp_all add: quote_def)
  show ?thesis
    unfolding parseSql_def
    apply (simp only: 0 if_False 1 option.case)
    apply (simp only: 2 option.case prod.case)
    apply simp
    done
qed

lemma parseSql_deleteSql:
  assumes "t \<in> set ALLOWED_TABLES"
  shows "parseSql (deleteSql t (likeLiteralOf p)) = Some (DeleteLike t p)"
proof -
  have 0: "deleteSql t (likeLiteralOf p) \<noteq> ''PRAGMA quick_check;''"
          "deleteSql t (likeLiteralOf p) \<noteq> ''PRAGMA integrity_check;''"
          "stripPrefix ''SELECT COUNT(*) FROM '' (deleteSql t (likeLiteralOf p)) = None"
          "stripPrefix ''SELECT COALESCE(SUM(LENGTH(value)), 0) FROM '' (deleteSql t (likeLiteralOf p)) = None"
    by (simp_all add: deleteSql_def stripPrefix_def)
  have 1: "stripPrefix ''DELETE FROM '' (deleteSql t (likeLiteralOf p))
           = Some (t @ '' WHERE key LIKE '' @ likeLiteralOf p @ '';'')"
    unfolding deleteSql_def by (rule stripPrefix_append)
  have 2: "parseTableLike (t @ '' WHERE key LIKE '' @ likeLiteralOf p @ '';'') = Some (t, p, '';'')"
    using allowed_ident [OF assms] by (intro parseTableLike_ok) (simp_all add: quote_def)
  show ?thesis
    unfolding parseSql_def
    apply (simp only: 0 if_False 1 option.case)
    apply (simp only: 2 option.case prod.case)
    apply simp
    done
qed

lemma parseSql_deleteKeepSql:
  assumes "t \<in> set ALLOWED_TABLES"
  shows "parseSql (deleteKeepSql t (likeLiteralOf p) k) = Some (DeleteLikeKeep t p k)"
proof -
  let ?tail = "'' AND rowid NOT IN (SELECT rowid FROM '' @ t @ '' WHERE key LIKE '' @ likeLiteralOf p
           @ '' ORDER BY rowid DESC LIMIT '' @ showInt k @ '');''"
  have 0: "deleteKeepSql t (likeLiteralOf p) k \<noteq> ''PRAGMA quick_check;''"
          "deleteKeepSql t (likeLiteralOf p) k \<noteq> ''PRAGMA integrity_check;''"
          "stripPrefix ''SELECT COUNT(*) FROM '' (deleteKeepSql t (likeLiteralOf p) k) = None"
          "stripPrefix ''SELECT COALESCE(SUM(LENGTH(value)), 0) FROM '' (deleteKeepSql t (likeLiteralOf p) k) = None"
    by (simp_all add: deleteKeepSql_def stripPrefix_def)
  have 1: "stripPrefix ''DELETE FROM '' (deleteKeepSql t (likeLiteralOf p) k)
           = Some (t @ '' WHERE key LIKE '' @ likeLiteralOf p @ ?tail)"
    unfolding deleteKeepSql_def by (rule stripPrefix_append)
  have 2: "parseTableLike (t @ '' WHERE key LIKE '' @ likeLiteralOf p @ ?tail) = Some (t, p, ?tail)"
    using allowed_ident [OF assms] by (intro parseTableLike_ok) (simp_all add: quote_def)
  have 3: "?tail \<noteq> '';''" by simp
  have 4: "parseKeepTail t p ?tail = Some (DeleteLikeKeep t p k)"
    using allowed_ident [OF assms] by (intro parseKeepTail_ok) simp_all
  show ?thesis
    unfolding parseSql_def
    apply (simp only: 0 if_False 1 option.case)
    apply (simp only: 2 option.case prod.case 3 if_False 4)
    done
qed

section \<open>Effects of the engine steps\<close>

lemma emit_simps [simp]:
  "fs (emit e w) = fs w" "trace (emit e w) = trace w @ [e]"
  "sqlite3OnPath (emit e w) = sqlite3OnPath w" "LOCALAPPDATA (emit e w) = LOCALAPPDATA w"
  "pathSep (emit e w) = pathSep w" "cwd (emit e w) = cwd w" "home (emit e w) = home w"
  "APPDATA (emit e w) = APPDATA w"
  by (simp_all add: emit_def)

lemma views_emit [simp]:
  "tableRows (emit e w) = tableRows w" "liveRows (emit e w) = liveRows w"
  "getFileSizeMb (emit e w) = getFileSizeMb w"
  by (simp_all add: tableRows_def liveRows_def getFileSizeMb_def fun_eq_iff)

lemma getSqlite3Command_snd [simp]: "snd (getSqlite3Command w) = emit VersionProbe w"
  by (simp add: getSqlite3Command_def Let_def split: option.splits)

lemma map_of_setTable:
  "map_of (tables (setTable db t rows)) t' =
     (if t' = t \<and> map_of (tables db) t \<noteq> None then Some rows else map_of (tables db) t')"
proof -
  have "map_of (map (\<lambda>(n, rs). if n = t then (n, rows) else (n, rs)) xs) t' =
          (if t' = t \<and> map_of xs t \<noteq> None then Some rows else map_of xs t')" for xs
    by (induction xs) auto
  then show ?thesis by (simp add: setTable_def)
qed

lemma setTable_fields [simp]:
  "busy (setTable db t rows) = busy db" "bytes (setTable db t rows) = bytes db"
  "vacuumedBytes (setTable db t rows) = vacuumedBytes db"
  "quickCheck (setTable db t rows) = quickCheck db" "integrityCheck (setTable db t rows) = integrityCheck db"
  by (simp_all add: setTable_def)

lemma setRows_simps [simp]:
  "trace (setRows w f t rows) = trace w"
  by (simp add: setRows_def split: option.splits node.splits)

lemma tableRows_setRows:
  "liveRows w f t = Some old \<Longrightarrow>
   tableRows (setRows w f t rows) f' t' = (if f' = f \<and> t' = t then Some rows else tableRows w f' t')"
  by (auto simp: liveRows_def tableRows_def setRows_def map_of_setTable split: option.splits node.splits if_splits)

lemma liveRows_setRows:
  "liveRows w f t = Some old \<Longrightarrow>
   liveRows (setRows w f t rows) f' t' = (if f' = f \<and> t' = t then Some rows else liveRows w f' t')"
  by (auto simp: liveRows_def setRows_def map_of_setTable split: option.splits node.splits if_splits)

lemma getFileSizeMb_setRows [simp]: "getFileSizeMb (setRows w f t rows) = getFileSizeMb w"
  by (auto simp: getFileSizeMb_def setRows_def fun_eq_iff split: option.splits node.splits)

lemma liveRows_stat: "liveRows w f t = Some rows \<Longrightarrow> getFileSizeMb w f \<noteq> Inl e"
  by (auto simp: liveRows_def getFileSizeMb_def split: option.splits node.splits if_splits)

lemma runSqliteQuery_count:
  assumes "t \<in> set ALLOWED_TABLES"
  shows "runSqliteQuery w f (countSql t (likeLiteralOf p)) c =
     (case liveRows w f t of
        None \<Rightarrow> (Inl EngineExecutionFailed, emit (Query c f (countSql t (likeLiteralOf p))) w)
      | Some rows \<Rightarrow> (Inr (showNat (length (matching p rows)) @ [newline]),
                      emit (Query c f (countSql t (likeLiteralOf p))) w))"
  by (auto simp: runSqliteQuery_def parseSql_countSql [OF assms] execSql_def onTable_def liveRows_def Let_def
        emit_def map_upd_triv split: option.splits node.splits)

lemma runSqliteQuery_sum:
  assumes "t \<in> set ALLOWED_TABLES"
  shows "runSqliteQuery w f (sumSql t (likeLiteralOf p)) c =
     (case liveRows w f t of
        None \<Rightarrow> (Inl EngineExecutionFailed, emit (Query c f (sumSql t (likeLiteralOf p))) w)
      | Some rows \<Rightarrow> (Inr (showNat (sum_list (map (\<lambda>r. length (rowValue r)) (matching p rows))) @ [newline]),
                      emit (Query c f (sumSql t (likeLiteralOf p))) w))"
  by (auto simp: runSqliteQuery_def parseSql_sumSql [OF assms] execSql_def onTable_def liveRows_def Let_def
        emit_def map_upd_triv split: option.splits node.splits)

lemma runSqliteQuery_delete:
  assumes "t \<in> set ALLOWED_TABLES"
  shows "runSqliteQuery w f (deleteSql t (likeLiteralOf p)) c =
     (case liveRows w f t of
        None \<Rightarrow> (Inl EngineExecutionFailed, emit (Query c f (deleteSql t (likeLiteralOf p))) w)
      | Some rows \<Rightarrow> (Inr [], setRows (emit (Query c f (deleteSql t (likeLiteralOf p))) w) f t
                                 (filter (\<lambda>r. \<not> likeMatch p (rowKey r)) rows)))"
  by (auto simp: runSqliteQuery_def parseSql_deleteSql [OF assms] execSql_def onTable_def liveRows_def Let_def
        setRows_def split: option.splits node.splits)

lemma runSqliteQuery_deleteKeep:
  assumes "t \<in> set ALLOWED_TABLES"
  shows "runSqliteQuery w f (deleteKeepSql t (likeLiteralOf p) k) c =
     (case liveRows w f t of
        None \<Rightarrow> (Inl EngineExecutionFailed, emit (Query c f (deleteKeepSql t (likeLiteralOf p) k)) w)
      | Some rows \<Rightarrow> (Inr [], setRows (emit (Query c f (deleteKeepSql t (likeLiteralOf p) k)) w) f t
                                 (deleteLikeKeep p k rows)))"
  by (auto simp: runSqliteQuery_def parseSql_deleteKeepSql [OF assms] execSql_def onTable_def liveRows_def Let_def
        setRows_def split: option.splits node.splits)

lemma getSqlite3Command_E:
  "getSqlite3Command w = (r, w') \<Longrightarrow> w' = emit VersionProbe w"
  by (auto simp: getSqlite3Command_def Let_def split: option.splits if_splits)

lemma execVacuum_E:
  assumes "execVacuum w c f = (r, w')"
  shows "tableRows w' = tableRows w \<and> liveRows w' = liveRows w \<and> trace w' = trace w @ [VacuumCmd c f]
         \<and> (\<forall>e. getFileSizeMb w f \<noteq> Inl e \<longrightarrow> getFileSizeMb w' f \<noteq> Inl e)"
proof (cases "fs w f")
  case None
  then show ?thesis using assms by (auto simp: execVacuum_def Let_def)
next
  case (Some n)
  show ?thesis
  proof (cases n)
    case (Dir x)
    then show ?thesis using assms Some by (auto simp: execVacuum_def Let_def)
  next
    case (File db)
    show ?thesis
    proof (cases "busy db")
      case True
      then show ?thesis using assms Some File by (auto simp: execVacuum_def Let_def)
    next
      case False
      then have w': "w' = (emit (VacuumCmd c f) w)\<lparr>fs := (fs w)(f \<mapsto> File (db\<lparr>bytes := vacuumedBytes db\<rparr>))\<rparr>"
        using assms Some File by (simp add: execVacuum_def Let_def)
      show ?thesis
        unfolding w' using Some File
        by (simp add: tableRows_def liveRows_def getFileSizeMb_def fun_eq_iff)
    qed
  qed
qed

lemma newEvents_append: "trace w' = trace w @ evs \<Longrightarrow> newEvents w w' = evs"
  by (simp add: newEvents_def)

lemma getSqlite3Command_eq: "getSqlite3Command w = (fst (getSqlite3Command w), emit VersionProbe w)"
  by (metis getSqlite3Command_snd prod.collapse)

lemma getFileSizeMb_File: "fs w f = Some (File db) \<Longrightarrow> getFileSizeMb w f = Inr (of_nat (bytes db) / 1048576)"
  by (simp add: getFileSizeMb_def)

lemma execVacuum_File:
  "fs w f = Some (File db) \<Longrightarrow> \<not> busy db \<Longrightarrow>
   execVacuum w c f = (Inr (), (emit (VacuumCmd c f) w)\<lparr>fs := (fs w)(f \<mapsto> File (db\<lparr>bytes := vacuumedBytes db\<rparr>))\<rparr>)"
  by (simp add: execVacuum_def Let_def)

lemma vacuumDatabase_Some_File:
  assumes "fs w f = Some (File db)" "\<not> busy db"
  shows "vacuumDatabase w f (Some c) =
           (Inr (of_nat (bytes db) / 1048576, of_nat (vacuumedBytes db) / 1048576),
            (emit (VacuumCmd c f) w)\<lparr>fs := (fs w)(f \<mapsto> File (db\<lparr>bytes := vacuumedBytes db\<rparr>))\<rparr>)"
  using assms by (simp add: vacuumDatabase_def getFileSizeMb_File execVacuum_File getFileSizeMb_def)

lemma vacuumDatabase_None:
  "vacuumDatabase w f None =
     (case fst (getSqlite3Command w) of
        Inl e \<Rightarrow> (Inl e, emit VersionProbe w)
      | Inr c \<Rightarrow> vacuumDatabase (emit VersionProbe w) f (Some c))"
  by (subst vacuumDatabase_def, subst getSqlite3Command_eq) (simp add: vacuumDatabase_def split: sum.splits)

lemma vacuumDatabase_Some_E:
  assumes "vacuumDatabase w f (Some c) = (r, w')"
  shows "tableRows w' = tableRows w \<and> liveRows w' = liveRows w
         \<and> (trace w' = trace w \<or> trace w' = trace w @ [VacuumCmd c f])
         \<and> (\<forall>e. getFileSizeMb w f \<noteq> Inl e \<longrightarrow> getFileSizeMb w' f \<noteq> Inl e)"
proof (cases "getFileSizeMb w f")
  case (Inl e)
  then show ?thesis using assms by (auto simp: vacuumDatabase_def)
next
  case (Inr b)
  obtain r2 w2 where ev: "execVacuum w c f = (r2, w2)" by (cases "execVacuum w c f")
  have w': "w' = w2" using assms Inr ev
    by (auto simp: vacuumDatabase_def split: sum.splits)
  show ?thesis using execVacuum_E [OF ev] w' by simp
qed

lemma parseSql_pragmas [simp]:
  "parseSql ''PRAGMA quick_check;'' = Some QuickCheck"
  "parseSql ''PRAGMA integrity_check;'' = Some IntegrityCheck"
  by (simp_all add: parseSql_def)

lemma runSqliteQuery_trace:
  "trace (snd (runSqliteQuery w f sql c)) = trace w @ [Query c f sql]"
  by (auto simp: runSqliteQuery_def Let_def split: option.splits node.splits sum.splits prod.splits)

lemma runSqliteQuery_quick:
  "fst (runSqliteQuery w f ''PRAGMA quick_check;'' c) =
     (case fs w f of Some (File db) \<Rightarrow> if busy db then Inl EngineExecutionFailed else Inr (quickCheck db)
      | _ \<Rightarrow> Inl EngineExecutionFailed)"
  by (auto simp: runSqliteQuery_def execSql_def Let_def split: option.splits node.splits)

lemma runSqliteQuery_E:
  assumes "runSqliteQuery w f sql c = (r, w')"
  shows "trace w' = trace w @ [Query c f sql]"
  using runSqliteQuery_trace [of w f sql c] assms by simp

section \<open>Claims about the command line\<close>

lemma parseLoop_deleteTable:
  "deleteTable options \<in> set ALLOWED_TABLES \<Longrightarrow> deleteTable (parseLoop options args) \<in> set ALLOWED_TABLES"
  by (induction options args rule: parseLoop.induct) (auto split: option.splits)

lemma keepLastValues_tl: "set (keepLastValues (tl xs)) \<subseteq> set (keepLastValues xs)"
  by (induction xs rule: keepLastValues.induct) auto

lemma keepLastValues_Cons: "set (keepLastValues xs) \<subseteq> set (keepLastValues (a # xs))"
  using keepLastValues_tl [of "a # xs"] by simp

lemma parseLoop_keepLast_None:
  "keepLast options = None \<Longrightarrow> \<forall>v \<in> set (keepLastValues args). \<not> parsesPositive v
     \<Longrightarrow> keepLast (parseLoop options args) = None"
proof (induction options args rule: parseLoop.induct)
  case (1 options)
  then show ?case by simp
next
  case (2 options arg rest)
  have rest: "\<forall>v \<in> set (keepLastValues rest). \<not> parsesPositive v"
    using "2.prems"(2) keepLastValues_Cons [of rest arg] by blast
  have tlrest: "\<forall>v \<in> set (keepLastValues (tl rest)). \<not> parsesPositive v"
    using rest keepLastValues_tl [of rest] by blast
  have kl: "arg = ''--keep-last'' \<Longrightarrow> rest \<noteq> [] \<Longrightarrow> \<not> parsesPositive (hd rest)"
    using "2.prems"(2) by (cases rest) auto
  show ?case
    using "2.IH" "2.prems"(1) rest tlrest kl
    by (auto simp: parsesPositive_def split: option.splits)
qed


text \<open>
  Claim C8, amended. A \<open>--keep-last v\<close> whose \<open>v\<close> does not parse to a positive integer is
  skipped without any error and leaves the options as they were. When no \<open>--keep-last\<close> of
  the argument list is followed by a value that parses to a positive integer, \<open>keepLast\<close>
  stays \<open>null\<close> and the delete runs as a delete of all matches.
\<close>

theorem keepLast_invalid_ignored:
  "(\<not> parsesPositive v \<longrightarrow> parseLoop options (''--keep-last'' # v # rest) = parseLoop options rest)
   \<and> ((\<forall>x \<in> set (keepLastValues args). \<not> parsesPositive x)
        \<longrightarrow> keepLast (parseArgs args) = None
          \<and> deleteKeysAndVacuum w f p t (keepLast (parseArgs args)) = deleteKeysAndVacuum w f p t None)"
proof -
  have 1: "\<not> parsesPositive v \<longrightarrow> parseLoop options (''--keep-last'' # v # rest) = parseLoop options rest"
    by (auto simp: parsesPositive_def split: option.splits)
  have 2: "(\<forall>x \<in> set (keepLastValues args). \<not> parsesPositive x) \<longrightarrow> keepLast (parseArgs args) = None"
    unfolding parseArgs_def using parseLoop_keepLast_None [of defaultOptions args]
    by (simp add: defaultOptions_def)
  show ?thesis using 1 2 by simp
qed

text \<open>
  Claim C2, amended. A \<open>--table\<close> value outside the allow-list is skipped without any
  error and \<open>deleteTable\<close> keeps its previous value (\<open>ItemTable\<close> by default); the table
  name that \<open>parseArgs\<close> hands to the delete is always \<open>ItemTable\<close> or \<open>cursorDiskKV\<close>.
\<close>

theorem table_allow_list:
  "deleteTable (parseArgs args) \<in> set ALLOWED_TABLES
   \<and> (t \<notin> set ALLOWED_TABLES \<longrightarrow> parseLoop options (''--table'' # t # rest) = parseLoop options rest)"
proof -
  have "deleteTable (parseArgs args) \<in> set ALLOWED_TABLES"
    unfolding parseArgs_def by (rule parseLoop_deleteTable) (simp add: defaultOptions_def ALLOWED_TABLES_def)
  then show ?thesis by simp
qed

lemma parseInt_0: "parseInt ''0'' = Some 0"
  by (simp add: parseInt_def isWhite_def isDigit_def digitsVal_def digitVal_def)

lemma parseInt_3: "parseInt ''3'' = Some 3"
  by (simp add: parseInt_def isWhite_def isDigit_def digitsVal_def digitVal_def)

lemma parseInt_abc: "parseInt ''abc'' = None"
  by (simp add: parseInt_def isWhite_def isDigit_def digitsVal_def digitVal_def)

text \<open>
  Claim C8 as stated fails: the list \<open>--keep-last 0 --keep-last 3\<close> contains a \<open>--keep-last\<close>
  whose value is not a positive integer, and \<open>keepLast\<close> is \<open>3\<close>, not \<open>null\<close>.
\<close>

theorem keepLast_counterexample:
  "\<not> parsesPositive ''0'' \<and> keepLast (parseArgs [''--keep-last'', ''0'', ''--keep-last'', ''3'']) = Some 3"
  by (simp add: parsesPositive_def parseArgs_def defaultOptions_def parseInt_0 parseInt_3)

text \<open>Claim C8, amended: an instance.\<close>

theorem keepLast_invalid_ignored_witness:
  "\<not> parsesPositive ''abc''
   \<and> parseLoop defaultOptions [''--keep-last'', ''abc'', ''--global''] = parseLoop defaultOptions [''--global'']
   \<and> keepLastValues [''--delete-keys'', ''bubbleId:%'', ''--keep-last'', ''0''] = [''0'']
   \<and> \<not> parsesPositive ''0''
   \<and> keepLast (parseArgs [''--delete-keys'', ''bubbleId:%'', ''--keep-last'', ''0'']) = None"
proof -
  have a: "\<not> parsesPositive ''abc''" by (simp add: parsesPositive_def parseInt_abc)
  have b: "keepLastValues [''--delete-keys'', ''bubbleId:%'', ''--keep-last'', ''0''] = [''0'']"
    by simp
  have c: "\<not> parsesPositive ''0''" by (simp add: parsesPositive_def parseInt_0)
  show ?thesis
    using a b c
      keepLast_invalid_ignored [of "''abc''" defaultOptions "[''--global'']"
        "[''--delete-keys'', ''bubbleId:%'', ''--keep-last'', ''0'']"]
    by simp
qed

text \<open>Claim C2, amended: an instance.\<close>

theorem table_allow_list_witness:
  "''evil'' \<notin> set ALLOWED_TABLES
   \<and> deleteTable (parseArgs [''--table'', ''evil'']) \<in> set ALLOWED_TABLES
   \<and> parseLoop defaultOptions [''--table'', ''evil'', ''--global''] = parseLoop defaultOptions [''--global'']"
proof -
  have a: "''evil'' \<notin> set ALLOWED_TABLES" by (simp add: ALLOWED_TABLES_def)
  show ?thesis
    using a table_allow_list [of "[''--table'', ''evil'']" "''evil''" defaultOptions "[''--global'']"]
    by blast
qed


section \<open>Claims about VACUUM and the integrity check\<close>

text \<open>
  Claim C3, amended. \<open>vacuumDatabase\<close> measures the file before and after \<open>VACUUM\<close> and
  returns both sizes without comparing them: whenever the engine is found, the path holds
  a database file and the engine can work on it, the call succeeds with
  \<open>{beforeMb, afterMb}\<close>, whether the file shrank, kept its size or grew.
\<close>

theorem vacuumDatabase_returns_sizes:
  assumes "fs w f = Some (File db)" "\<not> busy db" "sc = None \<longrightarrow> fst (getSqlite3Command w) \<noteq> Inl EngineNotFound"
  shows "fst (vacuumDatabase w f sc) = Inr (of_nat (bytes db) / 1048576, of_nat (vacuumedBytes db) / 1048576)"
proof (cases sc)
  case (Some c)
  then show ?thesis using assms vacuumDatabase_Some_File by simp
next
  case None
  then obtain c where c: "fst (getSqlite3Command w) = Inr c"
    using assms(3) by (auto simp: getSqlite3Command_def Let_def split: option.splits if_splits)
  have "fs (emit VersionProbe w) f = Some (File db)" using assms(1) by simp
  then show ?thesis using None c assms(2) vacuumDatabase_Some_File [of "emit VersionProbe w" f db c]
    by (simp add: vacuumDatabase_None)
qed

lemma grownWorld_file: "fs grownWorld ''/db/state.vscdb'' = Some (File grownDb)"
  by (simp add: grownWorld_def)

lemma grownDb_fields: "\<not> busy grownDb" "bytes grownDb = 1048576" "vacuumedBytes grownDb = 2097152"
  by (simp_all add: grownDb_def exampleDb_def)

text \<open>
  Claim C3 as stated fails: on a file of 1 MB that the engine packs to 2 MB,
  \<open>vacuumDatabase\<close> succeeds and returns \<open>{beforeMb: 1, afterMb: 2}\<close>; nothing is reported.
\<close>

theorem vacuum_growth_counterexample:
  "vacuumDatabase grownWorld ''/db/state.vscdb'' (Some ''sqlite3'')
     = (Inr (1, 2),
        (emit (VacuumCmd ''sqlite3'' ''/db/state.vscdb'') grownWorld)
          \<lparr>fs := (fs grownWorld)(''/db/state.vscdb'' \<mapsto> File (grownDb\<lparr>bytes := vacuumedBytes grownDb\<rparr>))\<rparr>)
   \<and> (1::rat) < 2"
  using vacuumDatabase_Some_File [OF grownWorld_file grownDb_fields(1), of "''sqlite3''"]
  by (simp add: grownDb_fields)

text \<open>Claim C3, amended: an instance, with the engine looked up by the call itself.\<close>

theorem vacuumDatabase_returns_sizes_witness:
  "fs grownWorld ''/db/state.vscdb'' = Some (File grownDb) \<and> \<not> busy grownDb
   \<and> fst (getSqlite3Command grownWorld) = Inr ''sqlite3''
   \<and> fst (vacuumDatabase grownWorld ''/db/state.vscdb'' None) = Inr (1, 2)"
proof -
  have c: "fst (getSqlite3Command grownWorld) = Inr ''sqlite3''"
    by (simp add: getSqlite3Command_def Let_def grownWorld_def exampleWorld_def emit_def)
  show ?thesis
    using c grownWorld_file grownDb_fields
      vacuumDatabase_returns_sizes [OF grownWorld_file grownDb_fields(1), of None]
    by simp
qed

lemma runSqliteQuery_readonly:
  assumes "fs w f = Some (File db)" "\<not> busy db"
  shows "runSqliteQuery w f ''PRAGMA quick_check;'' c = (Inr (quickCheck db), emit (Query c f ''PRAGMA quick_check;'') w)"
    and "runSqliteQuery w f ''PRAGMA integrity_check;'' c = (Inr (integrityCheck db), emit (Query c f ''PRAGMA integrity_check;'') w)"
  using assms by (simp_all add: runSqliteQuery_def execSql_def Let_def emit_def map_upd_triv)

lemma runSqliteQuery_fail:
  assumes "\<forall>db. fs w f = Some (File db) \<longrightarrow> busy db"
  shows "runSqliteQuery w f ''PRAGMA quick_check;'' c = (Inl EngineExecutionFailed, emit (Query c f ''PRAGMA quick_check;'') w)"
  using assms by (auto simp: runSqliteQuery_def execSql_def Let_def split: option.splits node.splits)

lemma checkIntegrity_cases:
  "checkIntegrity w f label =
     (case fst (getSqlite3Command w) of
        Inl e \<Rightarrow> (Inl e, emit VersionProbe w)
      | Inr c \<Rightarrow>
        (case fs w f of
           None \<Rightarrow> (Inl StatFailed, emit VersionProbe w)
         | Some (Dir d) \<Rightarrow> (Inr False, emit (Query c f ''PRAGMA quick_check;'') (emit VersionProbe w))
         | Some (File db) \<Rightarrow>
             if busy db \<or> trim (quickCheck db) \<noteq> ''ok''
             then (Inr False, emit (Query c f ''PRAGMA quick_check;'') (emit VersionProbe w))
             else (Inr (trim (integrityCheck db) = ''ok''),
                   emit (Query c f ''PRAGMA integrity_check;'')
                     (emit (Query c f ''PRAGMA quick_check;'') (emit VersionProbe w)))))"
proof (cases "fst (getSqlite3Command w)")
  case (Inl e)
  then show ?thesis
    by (subst checkIntegrity_def, subst getSqlite3Command_eq) simp
next
  case (Inr c)
  let ?w1 = "emit VersionProbe w"
  have ci: "checkIntegrity w f label =
        (case getFileSizeMb ?w1 f of
           Inl e \<Rightarrow> (Inl e, ?w1)
         | Inr sizeMb \<Rightarrow>
           (case runSqliteQuery ?w1 f ''PRAGMA quick_check;'' c of
              (Inl e, w2) \<Rightarrow> (Inr False, w2)
            | (Inr quickOut, w2) \<Rightarrow>
              if trim quickOut \<noteq> ''ok'' then (Inr False, w2)
              else (case runSqliteQuery w2 f ''PRAGMA integrity_check;'' c of
                      (Inl e, w3) \<Rightarrow> (Inr False, w3)
                    | (Inr integrityOut, w3) \<Rightarrow> (Inr (trim integrityOut = ''ok''), w3))))"
    using Inr by (subst checkIntegrity_def, subst getSqlite3Command_eq) simp
  show ?thesis
  proof (cases "fs w f")
    case None
    then show ?thesis using Inr ci by (simp add: getFileSizeMb_def)
  next
    case (Some n)
    show ?thesis
    proof (cases n)
      case (Dir d)
      have "runSqliteQuery ?w1 f ''PRAGMA quick_check;'' c
              = (Inl EngineExecutionFailed, emit (Query c f ''PRAGMA quick_check;'') ?w1)"
        using Some Dir by (intro runSqliteQuery_fail) simp
      then show ?thesis using Inr ci Some Dir by (simp add: getFileSizeMb_def)
    next
      case (File db)
      show ?thesis
      proof (cases "busy db")
        case True
        have "runSqliteQuery ?w1 f ''PRAGMA quick_check;'' c
                = (Inl EngineExecutionFailed, emit (Query c f ''PRAGMA quick_check;'') ?w1)"
          using Some File True by (intro runSqliteQuery_fail) simp
        then show ?thesis using Inr ci Some File True by (simp add: getFileSizeMb_def)
      next
        case False
        have f1: "fs ?w1 f = Some (File db)" using Some File by simp
        have f2: "fs (emit (Query c f ''PRAGMA quick_check;'') ?w1) f = Some (File db)" using Some File by simp
        show ?thesis
          using Inr ci Some File False
            runSqliteQuery_readonly(1) [OF f1 False, of c]
            runSqliteQuery_readonly(2) [OF f2 False, of c]
          by (simp add: getFileSizeMb_def)
      qed
    qed
  qed
qed

lemma newEvents_emit [simp]:
  "newEvents w (emit e w) = [e]"
  "newEvents w (emit e2 (emit e1 w)) = [e1, e2]"
  "newEvents w (emit e3 (emit e2 (emit e1 w))) = [e1, e2, e3]"
  by (simp_all add: newEvents_def)

text \<open>
  Claim C4. When the trimmed output of \<open>PRAGMA quick_check\<close> is not exactly \<open>ok\<close>,
  \<open>checkIntegrity\<close> returns \<open>false\<close> and the only statement it issues is the quick check.
  \<open>PRAGMA integrity_check\<close> is issued only when the quick check ran before it and printed
  \<open>ok\<close>.
\<close>

theorem checkIntegrity_quick_first:
  "(fs w f = Some (File db) \<and> fst (getSqlite3Command w) = Inr c \<and> trim (quickCheck db) \<noteq> ''ok''
      \<longrightarrow> fst (checkIntegrity w f label) = Inr False
          \<and> newEvents w (snd (checkIntegrity w f label)) = [VersionProbe, Query c f ''PRAGMA quick_check;''])
   \<and> (Query c' f' ''PRAGMA integrity_check;'' \<in> set (newEvents w (snd (checkIntegrity w f label)))
      \<longrightarrow> (\<exists>db'. fs w f = Some (File db') \<and> \<not> busy db' \<and> trim (quickCheck db') = ''ok'')
          \<and> newEvents w (snd (checkIntegrity w f label))
              = [VersionProbe, Query c' f ''PRAGMA quick_check;'', Query c' f ''PRAGMA integrity_check;''])"
  by (auto simp: checkIntegrity_cases split: sum.splits option.splits node.splits if_splits)

section \<open>Facts about the example world\<close>

lemma example_paths:
  "getAllStateVscdbPaths exampleWorld =
     [(projectDb, ''Workspace (project) state.vscdb''),
      (ws1Db, ''WorkspaceStorage/ws1 state.vscdb''),
      (globalDb, ''Global state.vscdb'')]"
  by (simp add: getAllStateVscdbPaths_def getWorkspaceStatePath_def getGlobalStatePath_def firstExisting_def
      existsSync_def join_def exampleWorld_def add_def wsDirs_def wsEntries_def envSet_def envOr_def Let_def
      projectDb_def ws1Db_def globalDb_def)

lemma example_global: "getGlobalStatePath exampleWorld = Some globalDb"
  by (simp add: getGlobalStatePath_def firstExisting_def
      existsSync_def join_def exampleWorld_def envSet_def envOr_def Let_def globalDb_def)

lemma example_files:
  "fs exampleWorld projectDb = Some (File (exampleDb\<lparr>bytes := 2097152\<rparr>))"
  "fs exampleWorld ws1Db = Some (File (exampleDb\<lparr>quickCheck := ''*** in database main ***''\<rparr>))"
  "fs exampleWorld globalDb = Some (File exampleDb)"
  by (simp_all add: exampleWorld_def projectDb_def ws1Db_def globalDb_def)

lemma exampleDb_fields:
  "\<not> busy exampleDb" "quickCheck exampleDb = ''ok'' @ [newline]" "integrityCheck exampleDb = ''ok'' @ [newline]"
  "bytes exampleDb = 3145728" "vacuumedBytes exampleDb = 1048576"
  "map_of (tables exampleDb) ''cursorDiskKV'' = Some exampleRows"
  "map_of (tables exampleDb) ''ItemTable'' = Some [(1, ''cursor.composer.x'', ''abc''), (2, ''workbench.view'', ''de'')]"
  by (simp_all add: exampleDb_def)

lemma trim_examples:
  "trim [CHR ''o'', CHR ''k'', newline] = ''ok''" "trim ''*** in database main ***'' \<noteq> ''ok''"
  by (simp_all add: trim_def isWhite_def newline_def)

lemma locate_onPath: "sqlite3OnPath w \<Longrightarrow> fst (getSqlite3Command w) = Inr ''sqlite3''"
  by (simp add: getSqlite3Command_def Let_def)

lemma example_onPath [simp]: "sqlite3OnPath exampleWorld"
  by (simp add: exampleWorld_def)

text \<open>Claim C4: two instances, a file whose quick check fails and one that passes both.\<close>

theorem checkIntegrity_quick_first_witness:
  "fs exampleWorld ws1Db = Some (File (exampleDb\<lparr>quickCheck := ''*** in database main ***''\<rparr>))
   \<and> fst (getSqlite3Command exampleWorld) = Inr ''sqlite3''
   \<and> trim (quickCheck (exampleDb\<lparr>quickCheck := ''*** in database main ***''\<rparr>)) \<noteq> ''ok''
   \<and> fst (checkIntegrity exampleWorld ws1Db ''WorkspaceStorage/ws1 state.vscdb'') = Inr False
   \<and> newEvents exampleWorld (snd (checkIntegrity exampleWorld ws1Db ''WorkspaceStorage/ws1 state.vscdb''))
       = [VersionProbe, Query ''sqlite3'' ws1Db ''PRAGMA quick_check;'']
   \<and> Query ''sqlite3'' globalDb ''PRAGMA integrity_check;''
       \<in> set (newEvents exampleWorld (snd (checkIntegrity exampleWorld globalDb ''Global state.vscdb'')))
   \<and> trim (quickCheck exampleDb) = ''ok''
   \<and> newEvents exampleWorld (snd (checkIntegrity exampleWorld globalDb ''Global state.vscdb''))
       = [VersionProbe, Query ''sqlite3'' globalDb ''PRAGMA quick_check;'',
          Query ''sqlite3'' globalDb ''PRAGMA integrity_check;'']"
proof -
  have c: "fst (getSqlite3Command exampleWorld) = Inr ''sqlite3''"
    by (simp add: locate_onPath)
  have t: "trim (quickCheck (exampleDb\<lparr>quickCheck := ''*** in database main ***''\<rparr>)) \<noteq> ''ok''"
    by (simp add: trim_examples)
  have g: "Query ''sqlite3'' globalDb ''PRAGMA integrity_check;''
       \<in> set (newEvents exampleWorld (snd (checkIntegrity exampleWorld globalDb ''Global state.vscdb'')))"
    by (simp add: checkIntegrity_cases c example_files exampleDb_fields trim_examples)
  have q: "trim (quickCheck exampleDb) = ''ok''"
    by (simp add: exampleDb_fields trim_examples)
  show ?thesis
    using c t g q example_files(2)
      checkIntegrity_quick_first [of exampleWorld ws1Db
        "exampleDb\<lparr>quickCheck := ''*** in database main ***''\<rparr>" "''sqlite3''"
        "''WorkspaceStorage/ws1 state.vscdb''"]
      checkIntegrity_quick_first [of exampleWorld globalDb _ _ "''Global state.vscdb''" "''sqlite3''" globalDb]
    by simp
qed

lemma probes_simps [simp]:
  "probes [] = 0" "probes (VersionProbe # evs) = Suc (probes evs)"
  "probes (Query c f s # evs) = probes evs" "probes (VacuumCmd c f # evs) = probes evs"
  "probes (xs @ ys) = probes xs + probes ys"
  by (simp_all add: probes_def)

lemma checkIntegrity_trace:
  "\<exists>evs. trace (snd (checkIntegrity w f label)) = trace w @ VersionProbe # evs \<and> probes evs = 0"
  by (auto simp: checkIntegrity_cases split: sum.splits option.splits node.splits)

lemma integrityLoop_trace:
  "integrityLoop w dbs k = (Inr n, w') \<Longrightarrow> \<exists>evs. trace w' = trace w @ evs \<and> probes evs = length dbs"
proof (induction dbs arbitrary: w k)
  case Nil
  then show ?case by simp
next
  case (Cons d dbs)
  obtain f label where d: "d = (f, label)" by (cases d)
  obtain r1 w1 where ci: "checkIntegrity w f label = (r1, w1)" by (cases "checkIntegrity w f label")
  obtain evs1 where e1: "trace w1 = trace w @ VersionProbe # evs1" "probes evs1 = 0"
    using checkIntegrity_trace [of w f label] ci by auto
  obtain ok where r1: "r1 = Inr ok" and loop: "integrityLoop w1 dbs (if ok then Suc k else k) = (Inr n, w')"
    using Cons.prems d ci by (cases r1) auto
  obtain evs where e: "trace w' = trace w1 @ evs" "probes evs = length dbs"
    using Cons.IH [OF loop] by auto
  have "trace w' = trace w @ (VersionProbe # evs1 @ evs)" using e1 e by simp
  moreover have "probes (VersionProbe # evs1 @ evs) = length (d # dbs)" using e1 e by simp
  ultimately show ?case by blast
qed

section \<open>The delete operation, case by case\<close>

lemma liveRows_SomeD:
  "liveRows w f t = Some rows \<Longrightarrow> \<exists>db. fs w f = Some (File db) \<and> \<not> busy db \<and> map_of (tables db) t = Some rows"
  by (auto simp: liveRows_def split: option.splits node.splits if_splits)

lemma fs_setRows:
  "fs w f = Some (File db) \<Longrightarrow> fs (setRows w f t rows) = (fs w)(f \<mapsto> File (setTable db t rows))"
  by (simp add: setRows_def)

lemma finish_vacuum:
  assumes "fs w f = Some (File db)" "\<not> busy db"
  shows "(case vacuumDatabase w f (Some c) of
            (Inl e, w4) \<Rightarrow> (Inl e, w4)
          | (Inr sizes, w4) \<Rightarrow>
              (case getFileSizeMb w4 f of Inl e \<Rightarrow> (Inl e, w4) | Inr afterMb \<Rightarrow> (Inr (), w4)))
         = (Inr (), vacuumed c f w)"
  using assms by (simp add: vacuumDatabase_Some_File vacuumed_def getFileSizeMb_def)

lemma runSqliteQuery_deleteText:
  assumes "t \<in> set ALLOWED_TABLES" "liveRows w f t = Some rows"
  shows "(case keep of
            Some k \<Rightarrow> runSqliteQuery w f (deleteKeepSql t (likeLiteralOf p) k) c
          | None \<Rightarrow> runSqliteQuery w f (deleteSql t (likeLiteralOf p)) c)
         = (Inr [], setRows (emit (Query c f (deleteText t p keep)) w) f t (rowsAfterDelete p keep rows))"
  using assms
  by (cases keep) (simp_all add: runSqliteQuery_delete runSqliteQuery_deleteKeep deleteText_def rowsAfterDelete_def)

lemma deleteKeysAndVacuum_cases:
  assumes "t \<in> set ALLOWED_TABLES"
  shows "deleteKeysAndVacuum w f p t keep =
     (case fst (getSqlite3Command w) of
        Inl e \<Rightarrow> (Inl e, emit VersionProbe w)
      | Inr c \<Rightarrow>
        (case liveRows w f t of
           None \<Rightarrow> (Inl EngineExecutionFailed, emit (Query c f (countSql t (likeLiteralOf p))) (emit VersionProbe w))
         | Some rows \<Rightarrow>
           if matching p rows = [] \<or> (\<exists>k. keep = Some k \<and> int (length (matching p rows)) \<le> k)
           then (Inr (), emit (Query c f (countSql t (likeLiteralOf p))) (emit VersionProbe w))
           else (Inr (), vacuumed c f
                   (setRows (emit (Query c f (deleteText t p keep))
                               (emit (Query c f (countSql t (likeLiteralOf p))) (emit VersionProbe w)))
                      f t (rowsAfterDelete p keep rows)))))"
proof (cases "fst (getSqlite3Command w)")
  case (Inl e)
  then show ?thesis by (subst deleteKeysAndVacuum_def, subst getSqlite3Command_eq) simp
next
  case (Inr c)
  let ?w1 = "emit VersionProbe w"
  let ?w2 = "emit (Query c f (countSql t (likeLiteralOf p))) ?w1"
  show ?thesis
  proof (cases "liveRows w f t")
    case None
    then show ?thesis using Inr
      by (subst deleteKeysAndVacuum_def, subst getSqlite3Command_eq)
         (simp add: runSqliteQuery_count [OF assms])
  next
    case (Some rows)
    obtain db where db: "fs w f = Some (File db)" "\<not> busy db" "map_of (tables db) t = Some rows"
      using liveRows_SomeD [OF Some] by blast
    have stat: "getFileSizeMb w f = Inr (of_nat (bytes db) / 1048576)"
      using db by (simp add: getFileSizeMb_def)
    have live2: "liveRows ?w2 f t = Some rows" using Some by simp
    let ?w3 = "setRows (emit (Query c f (deleteText t p keep)) ?w2) f t (rowsAfterDelete p keep rows)"
    have del: "(case keep of
            Some k \<Rightarrow> runSqliteQuery ?w2 f (deleteKeepSql t (likeLiteralOf p) k) c
          | None \<Rightarrow> runSqliteQuery ?w2 f (deleteSql t (likeLiteralOf p)) c) = (Inr [], ?w3)"
      by (rule runSqliteQuery_deleteText [OF assms live2])
    have fs3: "fs ?w3 f = Some (File (setTable db t (rowsAfterDelete p keep rows)))"
      using db by (simp add: fs_setRows)
    have fin: "(case vacuumDatabase ?w3 f (Some c) of
            (Inl e, w4) \<Rightarrow> (Inl e, w4)
          | (Inr sizes, w4) \<Rightarrow>
              (case getFileSizeMb w4 f of Inl e \<Rightarrow> (Inl e, w4) | Inr afterMb \<Rightarrow> (Inr (), w4)))
         = (Inr (), vacuumed c f ?w3)"
      by (rule finish_vacuum [OF fs3]) (simp add: db)
    have len0: "(length (matching p rows) = 0) = (matching p rows = [])" by simp
    show ?thesis
      using Inr Some
      apply (subst deleteKeysAndVacuum_def, subst getSqlite3Command_eq)
      apply (simp only: fst_conv snd_conv sum.case prod.case Let_def runSqliteQuery_count [OF assms]
               views_emit option.case parseIntOr0_showNat del fin)
      apply (cases keep)
       apply (auto simp: len0 stat)
      done
  qed
qed

section \<open>Retention keeps the newest rows\<close>

lemma newest_subset: "set (newestRowids p n rows) \<subseteq> rowid ` set (matching p rows)"
  by (auto simp: newestRowids_def limit_def dest: in_set_takeD)

lemma distinct_matching_ids:
  "distinct (map rowid rows) \<Longrightarrow> distinct (map rowid (matching p rows))"
  by (simp add: matching_def distinct_map_filter)

lemma length_newest:
  assumes "0 \<le> n"
  shows "length (newestRowids p n rows) = min (length (matching p rows)) (nat n)"
  using assms by (simp add: newestRowids_def limit_def)

lemma distinct_newest:
  "distinct (map rowid rows) \<Longrightarrow> distinct (newestRowids p n rows)"
  using distinct_matching_ids [of rows p] by (simp add: newestRowids_def limit_def)

lemma matching_deleteLikeKeep:
  "matching p (deleteLikeKeep p n rows)
     = filter (\<lambda>r. rowid r \<in> set (newestRowids p n rows)) (matching p rows)"
  by (auto simp: matching_def deleteLikeKeep_def intro: filter_cong)

lemma deleted_deleteLikeKeep:
  "filter (\<lambda>r. r \<notin> set (deleteLikeKeep p n rows)) rows
     = filter (\<lambda>r. rowid r \<notin> set (newestRowids p n rows)) (matching p rows)"
  by (auto simp: matching_def deleteLikeKeep_def intro: filter_cong)

lemma length_filter_ids:
  assumes "distinct (map g xs)" "S \<subseteq> g ` set xs"
  shows "length (filter (\<lambda>x. g x \<in> S) xs) = card S"
proof -
  have "length (filter (\<lambda>x. g x \<in> S) xs) = length (filter (\<lambda>i. i \<in> S) (map g xs))"
    by (simp add: filter_map comp_def)
  also have "\<dots> = card ({i. i \<in> S} \<inter> set (map g xs))"
    using assms(1) by (rule distinct_length_filter)
  also have "{i. i \<in> S} \<inter> set (map g xs) = S" using assms(2) by auto
  finally show ?thesis .
qed

lemma kept_count:
  assumes "distinct (map rowid rows)" "0 \<le> n"
  shows "length (matching p (deleteLikeKeep p n rows)) = min (length (matching p rows)) (nat n)"
proof -
  have "length (matching p (deleteLikeKeep p n rows)) = card (set (newestRowids p n rows))"
    unfolding matching_deleteLikeKeep
    by (rule length_filter_ids [OF distinct_matching_ids [OF assms(1)] newest_subset])
  also have "\<dots> = length (newestRowids p n rows)"
    by (rule distinct_card [OF distinct_newest [OF assms(1)]])
  finally show ?thesis by (simp add: length_newest [OF assms(2)])
qed

lemma deleted_count:
  assumes "distinct (map rowid rows)" "0 \<le> n"
  shows "length (filter (\<lambda>r. r \<notin> set (deleteLikeKeep p n rows)) rows)
           = length (matching p rows) - nat n"
proof -
  let ?M = "matching p rows" and ?S = "set (newestRowids p n rows)"
  have "length (filter (\<lambda>r. rowid r \<in> ?S) ?M) + length (filter (\<lambda>r. rowid r \<notin> ?S) ?M) = length ?M"
    using sum_length_filter_compl [of "\<lambda>r. rowid r \<in> ?S" ?M] by simp
  moreover have "length (filter (\<lambda>r. rowid r \<in> ?S) ?M) = min (length ?M) (nat n)"
    using kept_count [OF assms, of p] by (simp add: matching_deleteLikeKeep)
  ultimately show ?thesis unfolding deleted_deleteLikeKeep by simp
qed

lemma newest_order:
  assumes "0 \<le> n" "x \<in> set (newestRowids p n rows)"
          "y \<in> rowid ` set (matching p rows)" "y \<notin> set (newestRowids p n rows)"
  shows "y \<le> x"
proof -
  let ?L = "rev (sort (map rowid (matching p rows)))"
  have desc: "sorted_wrt (\<lambda>a b. b \<le> a) ?L"
    by (simp add: sorted_wrt_rev)
  have split: "?L = take (nat n) ?L @ drop (nat n) ?L" by simp
  have x: "x \<in> set (take (nat n) ?L)" using assms(1,2) by (simp add: newestRowids_def limit_def)
  have "y \<in> set ?L" using assms(3) by simp
  then have "y \<in> set (take (nat n) ?L) \<or> y \<in> set (drop (nat n) ?L)"
    by (metis Un_iff set_append split)
  moreover have "y \<notin> set (take (nat n) ?L)" using assms(1,4) by (simp add: newestRowids_def limit_def)
  ultimately have y: "y \<in> set (drop (nat n) ?L)" by blast
  have "sorted_wrt (\<lambda>a b. b \<le> a) (take (nat n) ?L @ drop (nat n) ?L)" using desc by simp
  then show ?thesis using x y unfolding sorted_wrt_append by blast
qed

lemma retention_order:
  assumes "0 \<le> n" "r \<in> set (matching p (deleteLikeKeep p n rows))"
          "d \<in> set rows" "d \<notin> set (deleteLikeKeep p n rows)"
  shows "rowid d \<le> rowid r"
proof -
  have r: "rowid r \<in> set (newestRowids p n rows)"
    using assms(2) by (simp add: matching_deleteLikeKeep)
  have "d \<in> set (filter (\<lambda>r. r \<notin> set (deleteLikeKeep p n rows)) rows)" using assms(3,4) by simp
  then have d: "d \<in> set (matching p rows)" "rowid d \<notin> set (newestRowids p n rows)"
    unfolding deleted_deleteLikeKeep by simp_all
  show ?thesis by (rule newest_order [OF assms(1) r]) (use d in auto)
qed

lemma deleteLikeKeep_sublist:
  "deleteLikeKeep p n rows = filter (\<lambda>r. r \<in> set (deleteLikeKeep p n rows)) rows"
  by (auto simp: deleteLikeKeep_def intro: filter_cong)

lemma deleted_match:
  "d \<in> set rows \<Longrightarrow> d \<notin> set (deleteLikeKeep p n rows) \<Longrightarrow> likeMatch p (rowKey d)"
  by (auto simp: deleteLikeKeep_def)

lemma deleteLikeKeep_noop:
  assumes "int (length (matching p rows)) \<le> n"
  shows "deleteLikeKeep p n rows = rows"
proof -
  have "newestRowids p n rows = rev (sort (map rowid (matching p rows)))"
    using assms by (simp add: newestRowids_def limit_def)
  then have "set (newestRowids p n rows) = rowid ` set (matching p rows)" by simp
  then show ?thesis by (auto simp: deleteLikeKeep_def matching_def intro!: filter_True)
qed

section \<open>Claims about the delete operation\<close>

lemma vacuumed_views [simp]:
  "tableRows (vacuumed c f w) = tableRows w" "liveRows (vacuumed c f w) = liveRows w"
  by (auto simp: vacuumed_def tableRows_def liveRows_def fun_eq_iff split: option.splits node.splits)

lemma vacuumed_trace:
  "fs w f = Some (File db) \<Longrightarrow> trace (vacuumed c f w) = trace w @ [VacuumCmd c f]"
  by (simp add: vacuumed_def)

lemma liveRows_tableRows: "liveRows w f t = Some rows \<Longrightarrow> tableRows w f t = Some rows"
  by (auto simp: liveRows_def tableRows_def split: option.splits node.splits if_splits)

lemma nonmatching_rowsAfterDelete:
  "filter (\<lambda>r. \<not> likeMatch p (rowKey r)) (rowsAfterDelete p keep rows)
     = filter (\<lambda>r. \<not> likeMatch p (rowKey r)) rows"
  by (cases keep) (auto simp: rowsAfterDelete_def deleteLikeKeep_def intro: filter_cong)

lemma deleteKeysAndVacuum_rows:
  assumes "t \<in> set ALLOWED_TABLES" "liveRows w f t = Some rows" "fst (getSqlite3Command w) = Inr c"
          "case keep of None \<Rightarrow> True | Some k \<Rightarrow> 0 \<le> k"
  shows "fst (deleteKeysAndVacuum w f p t keep) = Inr ()"
    and "liveRows (snd (deleteKeysAndVacuum w f p t keep)) f t = Some (rowsAfterDelete p keep rows)"
proof -
  let ?W = "emit (Query c f (deleteText t p keep))
              (emit (Query c f (countSql t (likeLiteralOf p))) (emit VersionProbe w))"
  have live: "liveRows ?W f t = Some rows" using assms(2) by simp
  show "fst (deleteKeysAndVacuum w f p t keep) = Inr ()"
    using assms by (simp add: deleteKeysAndVacuum_cases)
  have noop: "matching p rows = [] \<or> (\<exists>k. keep = Some k \<and> int (length (matching p rows)) \<le> k)
                \<Longrightarrow> rowsAfterDelete p keep rows = rows"
  proof (cases keep)
    case None
    assume "matching p rows = [] \<or> (\<exists>k. keep = Some k \<and> int (length (matching p rows)) \<le> k)"
    then have "matching p rows = []" using None by simp
    then have "\<forall>r \<in> set rows. \<not> likeMatch p (rowKey r)"
      by (simp add: matching_def filter_empty_conv)
    then show ?thesis using None by (simp add: rowsAfterDelete_def)
  next
    case (Some k)
    assume "matching p rows = [] \<or> (\<exists>k. keep = Some k \<and> int (length (matching p rows)) \<le> k)"
    then have "int (length (matching p rows)) \<le> k" using Some assms(4) by auto
    then show ?thesis using Some by (simp add: rowsAfterDelete_def deleteLikeKeep_noop)
  qed
  show "liveRows (snd (deleteKeysAndVacuum w f p t keep)) f t = Some (rowsAfterDelete p keep rows)"
    using assms(1-3) noop liveRows_setRows [OF live, of "rowsAfterDelete p keep rows" f t]
    by (auto simp: deleteKeysAndVacuum_cases)
qed




lemma example_live:
  "liveRows exampleWorld globalDb ''cursorDiskKV'' = Some exampleRows"
  "liveRows exampleWorld globalDb ''ItemTable'' = Some [(1, ''cursor.composer.x'', ''abc''), (2, ''workbench.view'', ''de'')]"
  by (simp_all add: liveRows_def example_files exampleDb_fields)

lemma example_locate: "fst (getSqlite3Command exampleWorld) = Inr ''sqlite3''"
  by (simp add: locate_onPath)

lemma example_distinct: "distinct (map rowid exampleRows)"
  by (simp add: exampleRows_def rowid_def)

lemma example_allowed: "''cursorDiskKV'' \<in> set ALLOWED_TABLES" "''ItemTable'' \<in> set ALLOWED_TABLES"
  by (simp_all add: ALLOWED_TABLES_def)

lemma example_nonmatching:
  "filter (\<lambda>r. \<not> likeMatch ''bubbleId:%'' (rowKey r)) exampleRows
     = [(2, ''other'', ''yy''), (5, ''composerData:1'', ''vv'')]"
  by code_simp

lemma example_matching:
  "matching ''bubbleId:%'' exampleRows
     = [(1, ''bubbleId:a'', ''xxxx''), (3, ''bubbleId:b'', ''zzzzzz''), (4, ''BubbleId:c'', ''u''), (7, ''bubbleId:d'', [])]"
  by code_simp

lemma example_keep2:
  "deleteLikeKeep ''bubbleId:%'' 2 exampleRows
     = [(2, ''other'', ''yy''), (4, ''BubbleId:c'', ''u''), (5, ''composerData:1'', ''vv''), (7, ''bubbleId:d'', [])]"
  by code_simp




end
